theory Spec2Isabelle
  imports Complex_Main "HOL-Library.Word"
begin

text \<open>
  The wrappers of the vault and of its strategy (\<open>TonJettonTonStrategy.ts\<close>: the opcode and
  exit-code tables, the config cell of the vault, the message builders) and the
  extra-rewards job (\<open>vault-extra-rewards-distribution.ts\<close>), as functions of HOL. A
  \<open>number\<close> or \<open>bigint\<close> is an \<open>int\<close>; a \<open>number\<close> that is not an integer is outside the
  model. An exception is a value \<open>Inl e\<close>, and an awaited call is a step on the list of
  the calls made so far.
\<close>

section \<open>Errors\<close>

text \<open>
  Every exception of the TypeScript code is a value. \<open>RangeError\<close> is the codec's
  rejection of a value that does not fit its field, \<open>CellOverflow\<close> the rejection of a
  1024th bit or a fifth reference, \<open>CellUnderflow\<close> a read past the end of a cell. The
  remaining constructors are the rejections of the external collaborators of the
  orchestrator.
\<close>

datatype error =
    RangeError
  | CellOverflow
  | CellUnderflow
  | InvalidAddress
  | DecodingError
  | SubmissionError
  | Rejected string

definition bindE :: "error + 'a \<Rightarrow> ('a \<Rightarrow> error + 'b) \<Rightarrow> error + 'b" where
  "bindE m f = (case m of Inl e \<Rightarrow> Inl e | Inr x \<Rightarrow> f x)"

section \<open>Cell codec\<close>

text \<open>
  Modelled from the spec: the Cell Codec of section 4.1 (the builder and slice classes
  come from the \<open>@ton/core\<close> dependency, which is not among the sources). A cell is a
  bit string of at most 1023 bits and at most 4 child cells. Unsigned integers are written
  most significant bit first; coins are a 4-bit byte count followed by that many bytes;
  an address is the tag \<open>10\<close>, a zero anycast bit, the workchain as a signed byte and the
  256-bit hash.
\<close>

datatype cell = Cell (cell_bits: "bool list") (cell_refs: "cell list")

record address =
  workChain :: int
  hash :: "256 word"

record builder =
  b_bits :: "bool list"
  b_refs :: "cell list"

definition beginCell :: "error + builder" where
  "beginCell = Inr \<lparr>b_bits = [], b_refs = []\<rparr>"

fun uint_bits :: "nat \<Rightarrow> int \<Rightarrow> bool list" where
  "uint_bits 0 v = []"
| "uint_bits (Suc n) v = uint_bits n (v div 2) @ [odd v]"

definition writeBits :: "bool list \<Rightarrow> builder \<Rightarrow> error + builder" where
  "writeBits bs b =
     (if length (b_bits b) + length bs > 1023 then Inl CellOverflow
      else Inr (b\<lparr>b_bits := b_bits b @ bs\<rparr>))"

definition storeUint :: "int \<Rightarrow> nat \<Rightarrow> builder \<Rightarrow> error + builder" where
  "storeUint v n b =
     (if v < 0 \<or> 2 ^ n \<le> v then Inl RangeError else writeBits (uint_bits n v) b)"

definition storeBit :: "bool \<Rightarrow> builder \<Rightarrow> error + builder" where
  "storeBit v b = writeBits [v] b"

text \<open>The number of bytes of a non-negative integer: \<open>ceil (bit length / 8)\<close>.\<close>

function byte_len :: "int \<Rightarrow> nat" where
  "byte_len v = (if v \<le> 0 then 0 else Suc (byte_len (v div 256)))"
  by pat_completeness auto
termination
  by (relation "measure nat") auto

declare byte_len.simps [simp del]

definition storeCoins :: "int \<Rightarrow> builder \<Rightarrow> error + builder" where
  "storeCoins v b =
     (if v < 0 then Inl RangeError
      else let sizeBytes = byte_len v
           in bindE (storeUint (int sizeBytes) 4 b) (storeUint v (sizeBytes * 8)))"

definition storeInt :: "int \<Rightarrow> nat \<Rightarrow> builder \<Rightarrow> error + builder" where
  "storeInt v n b =
     (if n = 0 \<or> v < - (2 ^ (n - 1)) \<or> 2 ^ (n - 1) \<le> v then Inl RangeError
      else writeBits (uint_bits n (v mod 2 ^ n)) b)"

definition storeAddress :: "address \<Rightarrow> builder \<Rightarrow> error + builder" where
  "storeAddress a b =
     bindE (bindE (bindE (storeUint 2 2 b) (storeUint 0 1)) (storeInt (workChain a) 8))
       (writeBits (uint_bits 256 (uint (hash a))))"

text \<open>The bits that \<open>storeCoins\<close> and \<open>storeAddress\<close> append.\<close>

definition coins_bits :: "int \<Rightarrow> bool list" where
  "coins_bits v = uint_bits 4 (int (byte_len v)) @ uint_bits (byte_len v * 8) v"

definition address_bits :: "address \<Rightarrow> bool list" where
  "address_bits a = [True, False, False] @ uint_bits 8 (workChain a mod 256) @ uint_bits 256 (uint (hash a))"

definition storeRef :: "cell \<Rightarrow> builder \<Rightarrow> error + builder" where
  "storeRef c b =
     (if length (b_refs b) \<ge> 4 then Inl CellOverflow
      else Inr (b\<lparr>b_refs := b_refs b @ [c]\<rparr>))"

definition endCell :: "error + builder \<Rightarrow> error + cell" where
  "endCell m = bindE m (\<lambda>b. Inr (Cell (b_bits b) (b_refs b)))"

text \<open>
  \<open>storeRefOf inner\<close> is the call \<open>.storeRef(inner)\<close> whose argument is itself a builder
  chain: JavaScript has run the receiver's stores when it evaluates the argument, so an
  error of the receiver comes first.
\<close>

definition storeRefOf :: "error + cell \<Rightarrow> builder \<Rightarrow> error + builder" where
  "storeRefOf inner b = bindE inner (\<lambda>c. storeRef c b)"

subsection \<open>Reading a cell\<close>

record slice =
  s_bits :: "bool list"
  s_refs :: "cell list"

definition beginParse :: "cell \<Rightarrow> slice" where
  "beginParse c = \<lparr>s_bits = cell_bits c, s_refs = cell_refs c\<rparr>"

definition bits_uint :: "bool list \<Rightarrow> int" where
  "bits_uint bs = foldl (\<lambda>a b. 2 * a + (if b then 1 else 0)) 0 bs"

definition loadUint :: "nat \<Rightarrow> slice \<Rightarrow> error + (int \<times> slice)" where
  "loadUint n s =
     (if length (s_bits s) < n then Inl CellUnderflow
      else Inr (bits_uint (take n (s_bits s)), s\<lparr>s_bits := drop n (s_bits s)\<rparr>))"

definition loadCoins :: "slice \<Rightarrow> error + (int \<times> slice)" where
  "loadCoins s = bindE (loadUint 4 s) (\<lambda>(sizeBytes, s'). loadUint (nat sizeBytes * 8) s')"

definition loadRef :: "slice \<Rightarrow> error + (cell \<times> slice)" where
  "loadRef s =
     (case s_refs s of [] \<Rightarrow> Inl CellUnderflow
      | c # cs \<Rightarrow> Inr (c, s\<lparr>s_refs := cs\<rparr>))"

definition endParse :: "slice \<Rightarrow> bool" where
  "endParse s = (s_bits s = [] \<and> s_refs s = [])"

text \<open>Reading a sequence of fields of given kinds, in order.\<close>

datatype field = FUint nat | FCoins

fun read_fields :: "field list \<Rightarrow> slice \<Rightarrow> error + (int list \<times> slice)" where
  "read_fields [] s = Inr ([], s)"
| "read_fields (FUint n # fs) s =
     bindE (loadUint n s) (\<lambda>(v, s'). bindE (read_fields fs s') (\<lambda>(vs, s''). Inr (v # vs, s'')))"
| "read_fields (FCoins # fs) s =
     bindE (loadCoins s) (\<lambda>(v, s'). bindE (read_fields fs s') (\<lambda>(vs, s''). Inr (v # vs, s'')))"

section \<open>Opcode and exit-code tables\<close>

text \<open>The \<open>Opcodes\<close> object of the strategy wrapper.\<close>

definition Opcodes_transfer_notification :: int where
  "Opcodes_transfer_notification = 0x7362d09c"
definition Opcodes_internal_transfer :: int where
  "Opcodes_internal_transfer = 0x178d4519"
definition Opcodes_excesses :: int where
  "Opcodes_excesses = 0xd53276db"
definition Opcodes_transfer :: int where
  "Opcodes_transfer = 0xf8a7ea5"
definition Opcodes_set_deposit_lp_wallet_address :: int where
  "Opcodes_set_deposit_lp_wallet_address = 0x7719b84f"
definition Opcodes_set_jetton_wallet_address :: int where
  "Opcodes_set_jetton_wallet_address = 0x288b5223"
definition Opcodes_reinvest :: int where
  "Opcodes_reinvest = 0x812d4e3"

text \<open>The static \<open>Vault.OPS\<close> object, in the order of the source.\<close>

definition Vault_OPS_deposit :: int where
  "Vault_OPS_deposit = 0x95db9d39"
definition Vault_OPS_withdraw :: int where
  "Vault_OPS_withdraw = 0xb5de5f9e"
definition Vault_OPS_init :: int where
  "Vault_OPS_init = 0xc674e474"
definition Vault_OPS_reinvest :: int where
  "Vault_OPS_reinvest = 0x812d4e3"
definition Vault_OPS_complete_reinvest :: int where
  "Vault_OPS_complete_reinvest = 0x973280f5"
definition Vault_OPS_withdraw_management_fee :: int where
  "Vault_OPS_withdraw_management_fee = 0xef9e917b"
definition Vault_OPS_set_strategy_address :: int where
  "Vault_OPS_set_strategy_address = 0xa3d7611f"
definition Vault_OPS_set_management_fee_rate :: int where
  "Vault_OPS_set_management_fee_rate = 0xc25ffa5f"
definition Vault_OPS_set_is_locked :: int where
  "Vault_OPS_set_is_locked = 0xe2cde084"
definition Vault_OPS_transfer_notification :: int where
  "Vault_OPS_transfer_notification = 0x7362d09c"
definition Vault_OPS_internal_transfer :: int where
  "Vault_OPS_internal_transfer = 0x178d4519"
definition Vault_OPS_burn_notification :: int where
  "Vault_OPS_burn_notification = 0x7bdd97de"
definition Vault_OPS_excesses :: int where
  "Vault_OPS_excesses = 0xd53276db"
definition Vault_OPS_transfer_bounce_invalid_request :: int where
  "Vault_OPS_transfer_bounce_invalid_request = 0x19727ea8"
definition Vault_OPS_transfer :: int where
  "Vault_OPS_transfer = 0xf8a7ea5"

definition Vault_MANAGEMENT_FEE_PRECISION :: int where
  "Vault_MANAGEMENT_FEE_PRECISION = 10000"

text \<open>
  The static \<open>Vault.EXIT_CODES\<close> object: its keys with their values, in the order of
  the object literal.
\<close>

definition Vault_EXIT_CODES :: "(string \<times> int) list" where
  "Vault_EXIT_CODES =
     [(''WRONG_OP'', 80),
      (''WRONG_WORKCHAIN'', 81),
      (''INVALID_AMOUNT'', 82),
      (''INVALID_DEPOSIT_TOKEN'', 83),
      (''INSUFFICIENT_GAS'', 84),
      (''INVALID_CALLER'', 85),
      (''ZERO_OUTPUT'', 86),
      (''INSUFFICIENT_LP_BALANCE'', 87),
      (''INSUFFICIENT_LP_AMOUNT'', 88),
      (''INSUFFICIENT_REWARDS_BALANCE'', 89),
      (''INVALID_REINVEST_SENDER'', 90),
      (''WRONG_MANAGER_OP'', 91),
      (''INSUFFICIENT_MANAGEMENT_FEE'', 92),
      (''INSUFFICIENT_SHARES_BALANCE'', 93),
      (''MANAGEMENT_FEE_RATE_OUT_OF_BOUNDS'', 94)]"

section \<open>Persisted vault state\<close>

record VaultConfig =
  distributionPoolAddress :: address
  sharesTotalSupply :: int
  depositedLp :: int
  isLocked :: int
  managementFeeRate :: int
  managementFee :: int
  depositLpWalletAddress :: address
  adminAddress :: address
  managerAddress :: address
  strategyAddress :: address
  sharesWalletCode :: cell
  tempUpgrade :: cell

definition vaultConfigToCell :: "VaultConfig \<Rightarrow> error + cell" where
  "vaultConfigToCell config =
     endCell
      (bindE (bindE (bindE (bindE (bindE (bindE (bindE (bindE (bindE (bindE beginCell
        (storeAddress (distributionPoolAddress config)))
        (storeCoins (sharesTotalSupply config)))
        (storeCoins (depositedLp config)))
        (storeUint (isLocked config) 1))
        (storeCoins (managementFeeRate config)))
        (storeCoins (managementFee config)))
        (storeAddress (depositLpWalletAddress config)))
        (storeRefOf
          (endCell
            (bindE (bindE (bindE beginCell
              (storeAddress (adminAddress config)))
              (storeAddress (managerAddress config)))
              (storeAddress (strategyAddress config))))))
        (storeRef (sharesWalletCode config)))
        (storeRef (tempUpgrade config)))"

section \<open>Message builders\<close>

text \<open>
  What a builder hands to \<open>provider.internal\<close>: the attached value, the send mode and
  the sealed body. \<open>SendMode.PAY_GAS_SEPARATELY\<close> is 1.
\<close>

record internal_message =
  "value" :: int
  sendMode :: int
  body :: cell

definition SendMode_PAY_GAS_SEPARATELY :: int where
  "SendMode_PAY_GAS_SEPARATELY = 1"

definition provider_internal :: "int \<Rightarrow> error + cell \<Rightarrow> error + internal_message" where
  "provider_internal v b =
     bindE b (\<lambda>c. Inr \<lparr>internal_message.value = v,
                          sendMode = SendMode_PAY_GAS_SEPARATELY, body = c\<rparr>)"

text \<open>
  The options records. Every builder takes \<open>value\<close> and the optional \<open>queryId\<close>
  (\<open>None\<close> is the omitted field); a \<open>number\<close> or \<open>bigint\<close> of the source is an \<open>int\<close>.
  The vault's reinvest options are the strategy's with the three fee components.
\<close>

record opts_base =
  "value" :: int
  queryId :: "int option"

record strategy_reinvest_opts = opts_base +
  totalReward :: int
  amountToSwap :: int
  limit :: int
  tonTargetBalance :: int
  jettonTargetBalance :: int
  deadline :: int

record vault_reinvest_opts = strategy_reinvest_opts +
  depositFee :: int
  depositFwdFee :: int
  transferFee :: int

record wallet_address_opts = opts_base +
  walletAddress :: address

record deposit_notification_opts = opts_base +
  jettonAmount :: int
  fromAddress :: address

record strategy_address_opts = opts_base +
  strategyAddress :: address

record withdraw_management_fee_opts = opts_base +
  receiver :: address
  amount :: int

record is_locked_opts = opts_base +
  isLocked :: int

record management_fee_rate_opts = opts_base +
  managementFeeRate :: int

text \<open>\<open>opts.queryId ?? 0\<close>\<close>

definition queryId_or_0 :: "int option \<Rightarrow> int" where
  "queryId_or_0 q = (case q of None \<Rightarrow> 0 | Some v \<Rightarrow> v)"

subsection \<open>The strategy wrapper\<close>

definition TonJettonTonStrategy_sendReinvest ::
  "strategy_reinvest_opts \<Rightarrow> error + internal_message" where
  "TonJettonTonStrategy_sendReinvest opts =
     provider_internal (value opts)
      (endCell
        (bindE (bindE beginCell
          (storeCoins (totalReward opts)))
          (storeRefOf
            (endCell
              (bindE (bindE (bindE (bindE (bindE (bindE (bindE beginCell
                (storeUint Opcodes_reinvest 32))
                (storeUint (queryId_or_0 (queryId opts)) 64))
                (storeCoins (amountToSwap opts)))
                (storeCoins (limit opts)))
                (storeUint (deadline opts) 32))
                (storeCoins (tonTargetBalance opts)))
                (storeCoins (jettonTargetBalance opts)))))))"

definition TonJettonTonStrategy_sendSetJettonWalletAddress ::
  "wallet_address_opts \<Rightarrow> error + internal_message" where
  "TonJettonTonStrategy_sendSetJettonWalletAddress opts =
     provider_internal (value opts)
      (endCell
        (bindE (bindE (bindE beginCell
          (storeUint Opcodes_set_jetton_wallet_address 32))
          (storeUint (queryId_or_0 (queryId opts)) 64))
          (storeAddress (walletAddress opts))))"

definition TonJettonTonStrategy_sendSetDepositLpWalletAddress ::
  "wallet_address_opts \<Rightarrow> error + internal_message" where
  "TonJettonTonStrategy_sendSetDepositLpWalletAddress opts =
     provider_internal (value opts)
      (endCell
        (bindE (bindE (bindE beginCell
          (storeUint Opcodes_set_deposit_lp_wallet_address 32))
          (storeUint (queryId_or_0 (queryId opts)) 64))
          (storeAddress (walletAddress opts))))"

subsection \<open>The vault wrapper\<close>

definition prepareDepositPayload :: "error + cell" where
  "prepareDepositPayload = endCell (bindE beginCell (storeUint Vault_OPS_deposit 32))"

definition Vault_sendDepositNotification ::
  "deposit_notification_opts \<Rightarrow> error + internal_message" where
  "Vault_sendDepositNotification opts =
     bindE prepareDepositPayload (\<lambda>transferPayload.
       provider_internal (value opts)
        (endCell
          (bindE (bindE (bindE (bindE (bindE (bindE beginCell
            (storeUint Vault_OPS_transfer_notification 32))
            (storeUint (queryId_or_0 (queryId opts)) 64))
            (storeCoins (jettonAmount opts)))
            (storeAddress (fromAddress opts)))
            (storeBit True))
            (storeRef transferPayload))))"

definition Vault_sendReinvest :: "vault_reinvest_opts \<Rightarrow> error + internal_message" where
  "Vault_sendReinvest opts =
     provider_internal (value opts)
      (endCell
        (bindE (bindE (bindE (bindE beginCell
          (storeUint Vault_OPS_reinvest 32))
          (storeUint (queryId_or_0 (queryId opts)) 64))
          (storeCoins (totalReward opts)))
          (storeRefOf
            (endCell
              (bindE (bindE (bindE (bindE (bindE (bindE (bindE (bindE beginCell
                (storeCoins (amountToSwap opts)))
                (storeCoins (limit opts)))
                (storeUint (deadline opts) 32))
                (storeCoins (tonTargetBalance opts)))
                (storeCoins (jettonTargetBalance opts)))
                (storeCoins (depositFee opts)))
                (storeCoins (depositFwdFee opts)))
                (storeCoins (transferFee opts)))))))"

definition Vault_sendSetStrategyAddress ::
  "strategy_address_opts \<Rightarrow> error + internal_message" where
  "Vault_sendSetStrategyAddress opts =
     provider_internal (value opts)
      (endCell
        (bindE (bindE (bindE beginCell
          (storeUint Vault_OPS_set_strategy_address 32))
          (storeUint (queryId_or_0 (queryId opts)) 64))
          (storeAddress (strategyAddress opts))))"

definition Vault_sendWithdrawManagementFee ::
  "withdraw_management_fee_opts \<Rightarrow> error + internal_message" where
  "Vault_sendWithdrawManagementFee opts =
     provider_internal (value opts)
      (endCell
        (bindE (bindE (bindE (bindE beginCell
          (storeUint Vault_OPS_withdraw_management_fee 32))
          (storeUint (queryId_or_0 (queryId opts)) 64))
          (storeAddress (receiver opts)))
          (storeCoins (amount opts))))"

definition Vault_sendSetIsLocked :: "is_locked_opts \<Rightarrow> error + internal_message" where
  "Vault_sendSetIsLocked opts =
     provider_internal (value opts)
      (endCell
        (bindE (bindE (bindE beginCell
          (storeUint Vault_OPS_set_is_locked 32))
          (storeUint (queryId_or_0 (queryId opts)) 64))
          (storeUint (isLocked opts) 1)))"

definition Vault_sendSetManagementFeeRate ::
  "management_fee_rate_opts \<Rightarrow> error + internal_message" where
  "Vault_sendSetManagementFeeRate opts =
     provider_internal (value opts)
      (endCell
        (bindE (bindE (bindE beginCell
          (storeUint Vault_OPS_set_management_fee_rate 32))
          (storeUint (queryId_or_0 (queryId opts)) 64))
          (storeUint (managementFeeRate opts) 16)))"

subsection \<open>Every builder that writes an opcode\<close>

text \<open>
  One constructor for each builder with its options, the builder it calls, the opcode the
  source writes for it, and the query id it was given.
\<close>

datatype builder_call =
    StrategySendReinvest strategy_reinvest_opts
  | StrategySendSetJettonWalletAddress wallet_address_opts
  | StrategySendSetDepositLpWalletAddress wallet_address_opts
  | VaultSendDepositNotification deposit_notification_opts
  | VaultSendReinvest vault_reinvest_opts
  | VaultSendSetStrategyAddress strategy_address_opts
  | VaultSendWithdrawManagementFee withdraw_management_fee_opts
  | VaultSendSetIsLocked is_locked_opts
  | VaultSendSetManagementFeeRate management_fee_rate_opts

fun build :: "builder_call \<Rightarrow> error + internal_message" where
  "build (StrategySendReinvest opts) = TonJettonTonStrategy_sendReinvest opts"
| "build (StrategySendSetJettonWalletAddress opts) =
     TonJettonTonStrategy_sendSetJettonWalletAddress opts"
| "build (StrategySendSetDepositLpWalletAddress opts) =
     TonJettonTonStrategy_sendSetDepositLpWalletAddress opts"
| "build (VaultSendDepositNotification opts) = Vault_sendDepositNotification opts"
| "build (VaultSendReinvest opts) = Vault_sendReinvest opts"
| "build (VaultSendSetStrategyAddress opts) = Vault_sendSetStrategyAddress opts"
| "build (VaultSendWithdrawManagementFee opts) = Vault_sendWithdrawManagementFee opts"
| "build (VaultSendSetIsLocked opts) = Vault_sendSetIsLocked opts"
| "build (VaultSendSetManagementFeeRate opts) = Vault_sendSetManagementFeeRate opts"

fun opcode_of :: "builder_call \<Rightarrow> int" where
  "opcode_of (StrategySendReinvest opts) = Opcodes_reinvest"
| "opcode_of (StrategySendSetJettonWalletAddress opts) = Opcodes_set_jetton_wallet_address"
| "opcode_of (StrategySendSetDepositLpWalletAddress opts) =
     Opcodes_set_deposit_lp_wallet_address"
| "opcode_of (VaultSendDepositNotification opts) = Vault_OPS_transfer_notification"
| "opcode_of (VaultSendReinvest opts) = Vault_OPS_reinvest"
| "opcode_of (VaultSendSetStrategyAddress opts) = Vault_OPS_set_strategy_address"
| "opcode_of (VaultSendWithdrawManagementFee opts) = Vault_OPS_withdraw_management_fee"
| "opcode_of (VaultSendSetIsLocked opts) = Vault_OPS_set_is_locked"
| "opcode_of (VaultSendSetManagementFeeRate opts) = Vault_OPS_set_management_fee_rate"

fun queryId_of :: "builder_call \<Rightarrow> int option" where
  "queryId_of (StrategySendReinvest opts) = queryId opts"
| "queryId_of (StrategySendSetJettonWalletAddress opts) = queryId opts"
| "queryId_of (StrategySendSetDepositLpWalletAddress opts) = queryId opts"
| "queryId_of (VaultSendDepositNotification opts) = queryId opts"
| "queryId_of (VaultSendReinvest opts) = queryId opts"
| "queryId_of (VaultSendSetStrategyAddress opts) = queryId opts"
| "queryId_of (VaultSendWithdrawManagementFee opts) = queryId opts"
| "queryId_of (VaultSendSetIsLocked opts) = queryId opts"
| "queryId_of (VaultSendSetManagementFeeRate opts) = queryId opts"

text \<open>Decoding the first 32 bits of a cell, and the 64 bits after them.\<close>

definition first32 :: "cell \<Rightarrow> error + int" where
  "first32 c = bindE (loadUint 32 (beginParse c)) (\<lambda>(op, s). Inr op)"

definition next64 :: "cell \<Rightarrow> error + int" where
  "next64 c =
     bindE (loadUint 32 (beginParse c)) (\<lambda>(op, s). bindE (loadUint 64 s) (\<lambda>(q, s'). Inr q))"

text \<open>
  The field after the opcode and the query id of a \<open>set_management_fee_rate\<close> body, read
  as 16 bits that end the cell.
\<close>

definition rate_field :: "cell \<Rightarrow> error + int" where
  "rate_field c =
     bindE (read_fields [FUint 32, FUint 64, FUint 16] (beginParse c))
       (\<lambda>(vs, s). if endParse s then Inr (last vs) else Inl DecodingError)"

text \<open>
  A cell whose flat fields are the 32-bit opcode alone, or the opcode and a 64-bit query
  id, and nothing else.
\<close>

definition outer_only_opcode_and_query_id :: "int \<Rightarrow> cell \<Rightarrow> bool" where
  "outer_only_opcode_and_query_id op c =
     (cell_bits c = uint_bits 32 op
      \<or> (length (cell_bits c) = 96 \<and> take 32 (cell_bits c) = uint_bits 32 op))"

section \<open>Reward distribution orchestrator\<close>

text \<open>
  The orchestrator awaits its collaborators one after the other, so a run is a function of
  the world: the list of the calls made so far, oldest first. A call appends its event and
  returns what the collaborator answers; a rejected promise is \<open>Inl\<close>, and the world
  reached is returned with it.
\<close>

record vaultData =
  vault :: string
  extraDistributionPool :: string

record poolExtraData =
  tokenWalletAddress :: address

datatype event =
    GetPoolExtraData address
  | WaitCall string
  | PrepareExtraRewards address int address
  | DistributeRewards "(address \<times> int) list" address
  | GovernorSend address int
  | WaitReturn string string
  | ConsoleLog string

type_synonym world = "event list"

text \<open>
  The collaborators of the orchestrator, none of them among the sources: the governor
  wallet promise, the configured vaults and viewer URL, address parsing and printing of
  \<open>@ton/core\<close>, the distribution pool's getter, \<open>prepareExtraRewards\<close> and
  \<open>distributeRewards\<close>, the governor's \<open>send\<close>, and what the wait primitive needs (its
  retry budget and the hash it sees confirmed). An answer may depend on the calls made
  before it.
\<close>

record env =
  vaultGovernorWallet :: "error + address"
  Address_toString :: "address \<Rightarrow> string"
  Address_parse :: "string \<Rightarrow> error + address"
  addresses_vaults :: "vaultData list"
  TONVIEWER_URL :: string
  getPoolExtraData :: "world \<Rightarrow> address \<Rightarrow> error + poolExtraData"
  prepareExtraRewards :: "world \<Rightarrow> address \<Rightarrow> int \<Rightarrow> address \<Rightarrow> error + (address \<times> int) list"
  distributeRewards :: "world \<Rightarrow> (address \<times> int) list \<Rightarrow> address \<Rightarrow> error + unit"
  governor_send :: "world \<Rightarrow> address \<Rightarrow> int \<Rightarrow> error + unit"
  retryBudget :: nat
  confirmedHash :: "world \<Rightarrow> string \<Rightarrow> error + string"

text \<open>
  \<open>toNano\<close> of \<open>@ton/core\<close> on a decimal literal: the amount in units of \<open>10^-9\<close>. The
  source calls it on the literals 0.1 and 0.05 only.
\<close>

definition toNano :: "rat \<Rightarrow> int" where
  "toNano q = \<lfloor>q * 1000000000\<rfloor>"

text \<open>The \<open>size\<close> of a dictionary given by its entries: the number of its keys.\<close>

definition dict_size :: "('k \<times> 'v) list \<Rightarrow> nat" where
  "dict_size d = length (remdups (map fst d))"

text \<open>
  Modelled from the spec: the wait-for-confirmation retry primitive \<open>wait\<close> (its module is
  not among the sources). It is keyed on an address string, runs the submission, runs it
  again when it fails with a submission error while the retry budget lasts, and then
  blocks until a transaction hash is confirmed; any other error, an exhausted budget and
  a failed confirmation reject.
\<close>

fun attempt ::
  "nat \<Rightarrow> (world \<Rightarrow> (error + unit) \<times> world) \<Rightarrow> world \<Rightarrow> (error + unit) \<times> world" where
  "attempt 0 action w = action w"
| "attempt (Suc n) action w =
     (case action w of
        (Inl e, w') \<Rightarrow> if e = SubmissionError then attempt n action w' else (Inl e, w')
      | (Inr u, w') \<Rightarrow> (Inr u, w'))"

definition wait ::
  "env \<Rightarrow> string \<Rightarrow> (world \<Rightarrow> (error + unit) \<times> world) \<Rightarrow> world \<Rightarrow> (error + string) \<times> world"
  where
  "wait env key action w =
     (case attempt (retryBudget env) action (w @ [WaitCall key]) of
        (Inl e, w') \<Rightarrow> (Inl e, w')
      | (Inr u, w') \<Rightarrow>
          (case confirmedHash env w' key of
             Inl e \<Rightarrow> (Inl e, w')
           | Inr h \<Rightarrow> (Inr h, w' @ [WaitReturn key h])))"

text \<open>The first callback handed to \<open>wait\<close>: prepare the rewards, distribute them if any.\<close>

definition distributionAction ::
  "env \<Rightarrow> vaultData \<Rightarrow> int \<Rightarrow> address \<Rightarrow> world \<Rightarrow> (error + unit) \<times> world" where
  "distributionAction env vaultData rewardPerPeriod distributionPool w =
     (case Address_parse env (vault vaultData) of
        Inl e \<Rightarrow> (Inl e, w)
      | Inr v \<Rightarrow>
          (let w1 = w @ [PrepareExtraRewards v rewardPerPeriod distributionPool] in
           case prepareExtraRewards env w v rewardPerPeriod distributionPool of
             Inl e \<Rightarrow> (Inl e, w1)
           | Inr rewardsDictionary \<Rightarrow>
               if dict_size rewardsDictionary > 0
               then (distributeRewards env w1 rewardsDictionary distributionPool,
                     w1 @ [DistributeRewards rewardsDictionary distributionPool])
               else (Inr (), w1)))"

text \<open>The second callback: \<open>governor.send({to, value})\<close>.\<close>

definition fundingAction ::
  "env \<Rightarrow> address \<Rightarrow> int \<Rightarrow> world \<Rightarrow> (error + unit) \<times> world" where
  "fundingAction env to v w = (governor_send env w to v, w @ [GovernorSend to v])"

text \<open>The body of the loop, for one configured vault.\<close>

definition processVault ::
  "env \<Rightarrow> string \<Rightarrow> vaultData \<Rightarrow> world \<Rightarrow> (error + unit) \<times> world" where
  "processVault env address vaultData w =
     (case Address_parse env (extraDistributionPool vaultData) of
        Inl e \<Rightarrow> (Inl e, w)
      | Inr distributionPool \<Rightarrow>
          (case getPoolExtraData env w distributionPool of
             Inl e \<Rightarrow> (Inl e, w @ [GetPoolExtraData distributionPool])
           | Inr distributionPoolData \<Rightarrow>
               (let rewardPerPeriod = toNano (1 / 10) in
                case wait env address
                       (distributionAction env vaultData rewardPerPeriod distributionPool)
                       (w @ [GetPoolExtraData distributionPool]) of
                  (Inl e, w2) \<Rightarrow> (Inl e, w2)
                | (Inr hash', w2) \<Rightarrow>
                    (let w3 = w2 @ [ConsoleLog (''Extra rewards distribution hash: '' @ hash'
                                      @ ''. Link:'' @ TONVIEWER_URL env @ ''/transaction/''
                                      @ hash')];
                         fee = toNano (5 / 100) in
                     case wait env address
                            (fundingAction env (tokenWalletAddress distributionPoolData)
                               (rewardPerPeriod + fee)) w3 of
                       (Inl e, w4) \<Rightarrow> (Inl e, w4)
                     | (Inr sendHash, w4) \<Rightarrow>
                         (Inr (), w4 @ [ConsoleLog (''Send extra rewards hash: '' @ sendHash
                                          @ ''. Link:'' @ TONVIEWER_URL env
                                          @ ''/transaction/'' @ sendHash)])))))"

text \<open>The \<open>for ... of\<close> loop over the configured vaults: no \<open>try\<close> around its body.\<close>

fun forEachVault ::
  "env \<Rightarrow> string \<Rightarrow> vaultData list \<Rightarrow> world \<Rightarrow> (error + unit) \<times> world" where
  "forEachVault env address [] w = (Inr (), w)"
| "forEachVault env address (vaultData # rest) w =
     (case processVault env address vaultData w of
        (Inl e, w') \<Rightarrow> (Inl e, w')
      | (Inr u, w') \<Rightarrow> forEachVault env address rest w')"

definition vaultExtraRewardsDistribution :: "env \<Rightarrow> world \<Rightarrow> (error + unit) \<times> world" where
  "vaultExtraRewardsDistribution env w =
     (case vaultGovernorWallet env of
        Inl e \<Rightarrow> (Inl e, w)
      | Inr wallet \<Rightarrow>
          forEachVault env (Address_toString env wallet) (addresses_vaults env) w)"

subsection \<open>Reading a run\<close>

text \<open>
  The events of each vault the loop reaches, in order: what \<open>processVault\<close> appends for
  it. The loop stops after a vault that fails.
\<close>

fun vault_segments :: "env \<Rightarrow> string \<Rightarrow> vaultData list \<Rightarrow> world \<Rightarrow> event list list" where
  "vault_segments env address [] w = []"
| "vault_segments env address (vaultData # rest) w =
     (case processVault env address vaultData w of
        (Inl e, w') \<Rightarrow> [drop (length w) w']
      | (Inr u, w') \<Rightarrow> drop (length w) w' # vault_segments env address rest w')"

fun is_preparation :: "event \<Rightarrow> bool" where
  "is_preparation (PrepareExtraRewards v r p) = True"
| "is_preparation e = False"

fun is_distribution :: "event \<Rightarrow> bool" where
  "is_distribution (DistributeRewards d p) = True"
| "is_distribution e = False"

fun is_funding :: "event \<Rightarrow> bool" where
  "is_funding (GovernorSend to v) = True"
| "is_funding e = False"

text \<open>No distribution submission after a funding transfer.\<close>

fun distribution_before_funding :: "event list \<Rightarrow> bool" where
  "distribution_before_funding [] = True"
| "distribution_before_funding (e # es) =
     (if is_funding e then list_all (\<lambda>e'. \<not> is_distribution e') es
      else distribution_before_funding es)"

text \<open>
  Every submission is made inside a call of \<open>wait\<close> keyed on \<open>key\<close>: \<open>cur\<close> is the key of
  the call of \<open>wait\<close> that has not returned yet, if any.
\<close>

fun submissions_wrapped :: "string \<Rightarrow> string option \<Rightarrow> event list \<Rightarrow> bool" where
  "submissions_wrapped key cur [] = True"
| "submissions_wrapped key cur (WaitCall k # es) = submissions_wrapped key (Some k) es"
| "submissions_wrapped key cur (WaitReturn k h # es) = submissions_wrapped key None es"
| "submissions_wrapped key cur (DistributeRewards d p # es) =
     (cur = Some key \<and> submissions_wrapped key cur es)"
| "submissions_wrapped key cur (GovernorSend to v # es) =
     (cur = Some key \<and> submissions_wrapped key cur es)"
| "submissions_wrapped key cur (e # es) = submissions_wrapped key cur es"

section \<open>Concrete inputs\<close>

definition example_address :: address where
  "example_address = \<lparr>workChain = 0, hash = 0x1234\<rparr>"

definition example_strategy_reinvest :: strategy_reinvest_opts where
  "example_strategy_reinvest =
     \<lparr>value = 50000000, queryId = None, totalReward = 1000000000, amountToSwap = 400000000,
      limit = 1, tonTargetBalance = 7, jettonTargetBalance = 9, deadline = 1700000000\<rparr>"

definition example_vault_reinvest :: vault_reinvest_opts where
  "example_vault_reinvest =
     \<lparr>value = 50000000, queryId = None, totalReward = 1000000000, amountToSwap = 400000000,
      limit = 1, tonTargetBalance = 7, jettonTargetBalance = 9, deadline = 1700000000,
      depositFee = 300000000, depositFwdFee = 250000000, transferFee = 50000000\<rparr>"

definition example_calls :: "builder_call list" where
  "example_calls =
     [StrategySendReinvest example_strategy_reinvest,
      StrategySendSetJettonWalletAddress
        \<lparr>value = 50000000, queryId = None, walletAddress = example_address\<rparr>,
      StrategySendSetDepositLpWalletAddress
        \<lparr>value = 50000000, queryId = None, walletAddress = example_address\<rparr>,
      VaultSendDepositNotification
        \<lparr>value = 50000000, queryId = None, jettonAmount = 1000, fromAddress = example_address\<rparr>,
      VaultSendReinvest example_vault_reinvest,
      VaultSendSetStrategyAddress
        \<lparr>value = 50000000, queryId = None, strategyAddress = example_address\<rparr>,
      VaultSendWithdrawManagementFee
        \<lparr>value = 50000000, queryId = None, receiver = example_address, amount = 12345\<rparr>,
      VaultSendSetIsLocked \<lparr>value = 50000000, queryId = None, isLocked = 1\<rparr>,
      VaultSendSetManagementFeeRate
        \<lparr>value = 50000000, queryId = None, managementFeeRate = 250\<rparr>]"

definition example_rate_too_wide :: management_fee_rate_opts where
  "example_rate_too_wide = \<lparr>value = 50000000, queryId = None, managementFeeRate = 65536\<rparr>"

definition example_rate :: management_fee_rate_opts where
  "example_rate = \<lparr>value = 50000000, queryId = Some 7, managementFeeRate = 250\<rparr>"

definition example_config :: VaultConfig where
  "example_config =
     \<lparr>distributionPoolAddress = example_address, sharesTotalSupply = 0, depositedLp = 0,
      VaultConfig.isLocked = 0, VaultConfig.managementFeeRate = 65536, managementFee = 0,
      depositLpWalletAddress = example_address, adminAddress = example_address,
      managerAddress = example_address, VaultConfig.strategyAddress = example_address,
      sharesWalletCode = Cell [] [], tempUpgrade = Cell [] []\<rparr>"

definition example_pool_1 :: address where "example_pool_1 = \<lparr>workChain = 0, hash = 0x11\<rparr>"
definition example_pool_2 :: address where "example_pool_2 = \<lparr>workChain = 0, hash = 0x12\<rparr>"
definition example_vault_1 :: address where "example_vault_1 = \<lparr>workChain = 0, hash = 0x21\<rparr>"
definition example_vault_2 :: address where "example_vault_2 = \<lparr>workChain = 0, hash = 0x22\<rparr>"
definition example_token_wallet :: address where
  "example_token_wallet = \<lparr>workChain = 0, hash = 0x31\<rparr>"
definition example_governor :: address where "example_governor = \<lparr>workChain = 0, hash = 0x41\<rparr>"
definition example_holder :: address where "example_holder = \<lparr>workChain = 0, hash = 0x51\<rparr>"

definition example_vaultData_1 :: vaultData where
  "example_vaultData_1 = \<lparr>vault = ''vault-1'', extraDistributionPool = ''pool-1''\<rparr>"
definition example_vaultData_2 :: vaultData where
  "example_vaultData_2 = \<lparr>vault = ''vault-2'', extraDistributionPool = ''pool-2''\<rparr>"

text \<open>
  A world where every collaborator answers: the first vault has one share-holder, the
  second none.
\<close>

definition example_env :: env where
  "example_env =
     \<lparr>vaultGovernorWallet = Inr example_governor,
      Address_toString = (\<lambda>a. ''governor''),
      Address_parse = (\<lambda>s. if s = ''pool-1'' then Inr example_pool_1
                            else if s = ''pool-2'' then Inr example_pool_2
                            else if s = ''vault-1'' then Inr example_vault_1
                            else if s = ''vault-2'' then Inr example_vault_2
                            else Inl InvalidAddress),
      addresses_vaults = [example_vaultData_1, example_vaultData_2],
      TONVIEWER_URL = ''https://tonviewer.com'',
      getPoolExtraData = (\<lambda>w p. Inr \<lparr>tokenWalletAddress = example_token_wallet\<rparr>),
      prepareExtraRewards = (\<lambda>w v r p. if v = example_vault_1 then Inr [(example_holder, r)]
                                         else Inr []),
      distributeRewards = (\<lambda>w d p. Inr ()),
      governor_send = (\<lambda>w to v. Inr ()),
      retryBudget = 2,
      confirmedHash = (\<lambda>w k. Inr ''abc'')\<rparr>"

text \<open>The same world, except that the getter of the first vault's pool rejects.\<close>

definition example_env_failing :: env where
  "example_env_failing =
     example_env\<lparr>getPoolExtraData :=
        (\<lambda>w p. if p = example_pool_1 then Inl DecodingError
               else Inr \<lparr>tokenWalletAddress = example_token_wallet\<rparr>)\<rparr>"


text \<open>The events of the first vault in the world where every collaborator answers.\<close>

definition example_segment_1 :: "event list" where
  "example_segment_1 =
     [GetPoolExtraData example_pool_1, WaitCall ''governor'',
      PrepareExtraRewards example_vault_1 100000000 example_pool_1,
      DistributeRewards [(example_holder, 100000000)] example_pool_1,
      WaitReturn ''governor'' ''abc'',
      ConsoleLog ''Extra rewards distribution hash: abc. Link:https://tonviewer.com/transaction/abc'',
      WaitCall ''governor'', GovernorSend example_token_wallet 150000000,
      WaitReturn ''governor'' ''abc'',
      ConsoleLog ''Send extra rewards hash: abc. Link:https://tonviewer.com/transaction/abc'']"

section \<open>The codec: what a store appends, what a load reads back\<close>

lemma bindE_InrE:
  assumes "bindE m f = Inr y"
  obtains x where "m = Inr x" and "f x = Inr y"
  using assms by (cases m) (simp_all add: bindE_def)

lemma bindE_Inr [simp]: "bindE (Inr x) f = f x"
  by (simp add: bindE_def)

lemma bindE_Inl [simp]: "bindE (Inl e) f = Inl e"
  by (simp add: bindE_def)

lemma Inr_projr: "\<not> isl r \<Longrightarrow> r = Inr (projr r)"
  by (cases r) simp_all

lemma length_uint_bits [simp]: "length (uint_bits n v) = n"
  by (induction n arbitrary: v) simp_all

lemma bits_uint_snoc: "bits_uint (bs @ [b]) = 2 * bits_uint bs + (if b then 1 else 0)"
  by (simp add: bits_uint_def)

lemma bits_uint_uint_bits: "0 \<le> v \<Longrightarrow> v < 2 ^ n \<Longrightarrow> bits_uint (uint_bits n v) = v"
proof (induction n arbitrary: v)
  case 0
  then show ?case by (simp add: bits_uint_def)
next
  case (Suc n)
  have "0 \<le> v div 2" and "v div 2 < 2 ^ n"
    using Suc.prems by simp_all
  then have "bits_uint (uint_bits n (v div 2)) = v div 2"
    by (rule Suc.IH)
  then show ?case
    by (simp add: bits_uint_snoc)
qed

lemma byte_len_bound: "v < 256 ^ byte_len v"
proof (induction v rule: byte_len.induct)
  case (1 v)
  show ?case
  proof (cases "v \<le> 0")
    case True
    then show ?thesis by (simp add: byte_len.simps)
  next
    case False
    then have "v div 256 < 256 ^ byte_len (v div 256)"
      by (intro "1.IH") simp
    then have "v < 256 * 256 ^ byte_len (v div 256)"
      by linarith
    with False show ?thesis
      by (subst byte_len.simps) simp
  qed
qed

lemma pow256: "(256::int) ^ k = 2 ^ (k * 8)"
proof -
  have "(2::int) ^ (k * 8) = (2 ^ 8) ^ k"
    by (simp only: mult.commute [of k 8] power_mult)
  then show ?thesis by simp
qed

lemma writeBits_Inr:
  "writeBits bs b = Inr b' \<Longrightarrow> b_bits b' = b_bits b @ bs \<and> b_refs b' = b_refs b"
  by (auto simp: writeBits_def split: if_splits)

lemma storeUint_Inr:
  "storeUint v n b = Inr b' \<Longrightarrow>
     0 \<le> v \<and> v < 2 ^ n \<and> b_bits b' = b_bits b @ uint_bits n v \<and> b_refs b' = b_refs b"
  by (auto simp: storeUint_def split: if_splits dest: writeBits_Inr)

lemma storeBit_Inr:
  "storeBit v b = Inr b' \<Longrightarrow> b_bits b' = b_bits b @ [v] \<and> b_refs b' = b_refs b"
  by (auto simp: storeBit_def dest: writeBits_Inr)

lemma storeRef_Inr:
  "storeRef c b = Inr b' \<Longrightarrow> b_bits b' = b_bits b \<and> b_refs b' = b_refs b @ [c]"
  by (auto simp: storeRef_def split: if_splits)

lemma storeCoins_Inr:
  assumes "storeCoins v b = Inr b'"
  shows "0 \<le> v \<and> byte_len v < 16 \<and> b_bits b' = b_bits b @ coins_bits v \<and> b_refs b' = b_refs b"
proof -
  from assms have v: "0 \<le> v"
    by (auto simp: storeCoins_def split: if_splits)
  with assms have "bindE (storeUint (int (byte_len v)) 4 b) (storeUint v (byte_len v * 8)) = Inr b'"
    by (simp add: storeCoins_def Let_def)
  then obtain b1 where 1: "storeUint (int (byte_len v)) 4 b = Inr b1"
    and 2: "storeUint v (byte_len v * 8) b1 = Inr b'"
    by (rule bindE_InrE)
  from storeUint_Inr [OF 1] storeUint_Inr [OF 2] v show ?thesis
    by (simp add: coins_bits_def)
qed

lemma storeInt_Inr:
  "storeInt v n b = Inr b' \<Longrightarrow> b_bits b' = b_bits b @ uint_bits n (v mod 2 ^ n) \<and> b_refs b' = b_refs b"
  by (auto simp: storeInt_def split: if_splits dest: writeBits_Inr)

lemma storeAddress_Inr:
  assumes "storeAddress a b = Inr b'"
  shows "b_bits b' = b_bits b @ address_bits a \<and> b_refs b' = b_refs b"
proof -
  from assms obtain b1 b2 b3 where 1: "storeUint 2 2 b = Inr b1"
    and 2: "storeUint 0 1 b1 = Inr b2"
    and 3: "storeInt (workChain a) 8 b2 = Inr b3"
    and 4: "writeBits (uint_bits 256 (uint (hash a))) b3 = Inr b'"
    unfolding storeAddress_def by (elim bindE_InrE)
  have "uint_bits 2 2 = [True, False]" "uint_bits 1 0 = [False]"
    by code_simp+
  with storeUint_Inr [OF 1] storeUint_Inr [OF 2] storeInt_Inr [OF 3] writeBits_Inr [OF 4]
  show ?thesis
    by (simp add: address_bits_def)
qed

lemma provider_internal_Inr:
  "provider_internal v c = Inr m \<Longrightarrow> \<exists>c'. c = Inr c' \<and> body m = c' \<and> internal_message.value m = v"
  by (cases c) (auto simp: provider_internal_def)

lemma endCell_Inr:
  "endCell m = Inr c \<Longrightarrow> \<exists>b. m = Inr b \<and> c = Cell (b_bits b) (b_refs b)"
  by (cases m) (auto simp: endCell_def)

lemma storeRefOf_Inr:
  "storeRefOf inner b = Inr b' \<Longrightarrow> \<exists>c. inner = Inr c \<and> b_bits b' = b_bits b \<and> b_refs b' = b_refs b @ [c]"
  by (cases inner) (auto simp: storeRefOf_def dest: storeRef_Inr)

lemma beginCell_Inr: "beginCell = Inr b \<Longrightarrow> b_bits b = [] \<and> b_refs b = []"
  by (auto simp: beginCell_def)

lemmas store_dests =
  provider_internal_Inr endCell_Inr storeRefOf_Inr storeUint_Inr storeCoins_Inr
  storeAddress_Inr storeBit_Inr storeRef_Inr beginCell_Inr

lemma loadUint_uint_bits:
  "0 \<le> v \<Longrightarrow> v < 2 ^ n \<Longrightarrow>
   loadUint n \<lparr>s_bits = uint_bits n v @ rest, s_refs = rs\<rparr> = Inr (v, \<lparr>s_bits = rest, s_refs = rs\<rparr>)"
  by (simp add: loadUint_def bits_uint_uint_bits)

lemma loadCoins_coins_bits:
  assumes "0 \<le> v" and "byte_len v < 16"
  shows "loadCoins \<lparr>s_bits = coins_bits v @ rest, s_refs = rs\<rparr> = Inr (v, \<lparr>s_bits = rest, s_refs = rs\<rparr>)"
proof -
  let ?k = "byte_len v"
  have "v < 256 ^ ?k"
    by (rule byte_len_bound)
  then have big: "v < 2 ^ (?k * 8)"
    by (simp only: pow256)
  have small: "int ?k < 2 ^ 4"
    using assms(2) by simp
  have "loadUint 4 \<lparr>s_bits = uint_bits 4 (int ?k) @ (uint_bits (?k * 8) v @ rest), s_refs = rs\<rparr>
          = Inr (int ?k, \<lparr>s_bits = uint_bits (?k * 8) v @ rest, s_refs = rs\<rparr>)"
    using small by (intro loadUint_uint_bits) simp_all
  then show ?thesis
    using loadUint_uint_bits [OF assms(1) big, of rest rs]
    by (simp add: loadCoins_def coins_bits_def)
qed

lemma loadUint_uint_bits_end:
  "0 \<le> v \<Longrightarrow> v < 2 ^ n \<Longrightarrow>
   loadUint n \<lparr>s_bits = uint_bits n v, s_refs = rs\<rparr> = Inr (v, \<lparr>s_bits = [], s_refs = rs\<rparr>)"
  using loadUint_uint_bits [of v n "[]" rs] by simp

lemma loadCoins_coins_bits_end:
  "0 \<le> v \<Longrightarrow> byte_len v < 16 \<Longrightarrow>
   loadCoins \<lparr>s_bits = coins_bits v, s_refs = rs\<rparr> = Inr (v, \<lparr>s_bits = [], s_refs = rs\<rparr>)"
  using loadCoins_coins_bits [of v "[]" rs] by simp

lemmas load_simps =
  loadUint_uint_bits loadUint_uint_bits_end loadCoins_coins_bits loadCoins_coins_bits_end

section \<open>The tables\<close>

text \<open>
  C4. The opcode constants defined in the code are bit-exact equal to the documented
  opcode table: transfer_notification=0x7362d09c, internal_transfer=0x178d4519,
  excesses=0xd53276db, transfer=0xf8a7ea5, deposit=0x95db9d39, withdraw=0xb5de5f9e,
  init=0xc674e474, reinvest=0x812d4e3, complete_reinvest=0x973280f5,
  withdraw_management_fee=0xef9e917b, set_strategy_address=0xa3d7611f,
  set_management_fee_rate=0xc25ffa5f, set_is_locked=0xe2cde084,
  burn_notification=0x7bdd97de, transfer_bounce_invalid_request=0x19727ea8,
  set_deposit_lp_wallet_address=0x7719b84f, set_jetton_wallet_address=0x288b5223.
  Both tables of the code are covered: the five names that the strategy's \<open>Opcodes\<close> and
  \<open>Vault.OPS\<close> share have the documented value in each.
\<close>

theorem opcode_table_bit_exact:
  "Vault_OPS_transfer_notification = 0x7362d09c \<and> Opcodes_transfer_notification = 0x7362d09c
   \<and> Vault_OPS_internal_transfer = 0x178d4519 \<and> Opcodes_internal_transfer = 0x178d4519
   \<and> Vault_OPS_excesses = 0xd53276db \<and> Opcodes_excesses = 0xd53276db
   \<and> Vault_OPS_transfer = 0xf8a7ea5 \<and> Opcodes_transfer = 0xf8a7ea5
   \<and> Vault_OPS_deposit = 0x95db9d39
   \<and> Vault_OPS_withdraw = 0xb5de5f9e
   \<and> Vault_OPS_init = 0xc674e474
   \<and> Vault_OPS_reinvest = 0x812d4e3 \<and> Opcodes_reinvest = 0x812d4e3
   \<and> Vault_OPS_complete_reinvest = 0x973280f5
   \<and> Vault_OPS_withdraw_management_fee = 0xef9e917b
   \<and> Vault_OPS_set_strategy_address = 0xa3d7611f
   \<and> Vault_OPS_set_management_fee_rate = 0xc25ffa5f
   \<and> Vault_OPS_set_is_locked = 0xe2cde084
   \<and> Vault_OPS_burn_notification = 0x7bdd97de
   \<and> Vault_OPS_transfer_bounce_invalid_request = 0x19727ea8
   \<and> Opcodes_set_deposit_lp_wallet_address = 0x7719b84f
   \<and> Opcodes_set_jetton_wallet_address = 0x288b5223"
  unfolding Opcodes_transfer_notification_def Opcodes_internal_transfer_def
    Opcodes_excesses_def Opcodes_transfer_def Opcodes_set_deposit_lp_wallet_address_def
    Opcodes_set_jetton_wallet_address_def Opcodes_reinvest_def
    Vault_OPS_deposit_def Vault_OPS_withdraw_def Vault_OPS_init_def Vault_OPS_reinvest_def
    Vault_OPS_complete_reinvest_def Vault_OPS_withdraw_management_fee_def
    Vault_OPS_set_strategy_address_def Vault_OPS_set_management_fee_rate_def
    Vault_OPS_set_is_locked_def Vault_OPS_transfer_notification_def
    Vault_OPS_internal_transfer_def Vault_OPS_burn_notification_def Vault_OPS_excesses_def
    Vault_OPS_transfer_bounce_invalid_request_def Vault_OPS_transfer_def
  by simp

text \<open>
  C9. The exit-code constants defined in the code enumerate exactly the integers 80
  through 94, in the documented order of meanings: wrong op=80, wrong workchain=81,
  invalid amount=82, invalid deposit token=83, insufficient gas=84, invalid caller=85,
  zero output=86, insufficient LP balance=87, insufficient LP amount=88, insufficient
  rewards balance=89, invalid reinvest sender=90, wrong manager op=91, insufficient
  management fee=92, insufficient shares balance=93, fee rate out of bounds=94.
\<close>

theorem exit_codes_80_to_94:
  "map snd Vault_EXIT_CODES = [80 .. 94]
   \<and> map fst Vault_EXIT_CODES =
       [''WRONG_OP'', ''WRONG_WORKCHAIN'', ''INVALID_AMOUNT'', ''INVALID_DEPOSIT_TOKEN'',
        ''INSUFFICIENT_GAS'', ''INVALID_CALLER'', ''ZERO_OUTPUT'', ''INSUFFICIENT_LP_BALANCE'',
        ''INSUFFICIENT_LP_AMOUNT'', ''INSUFFICIENT_REWARDS_BALANCE'', ''INVALID_REINVEST_SENDER'',
        ''WRONG_MANAGER_OP'', ''INSUFFICIENT_MANAGEMENT_FEE'', ''INSUFFICIENT_SHARES_BALANCE'',
        ''MANAGEMENT_FEE_RATE_OUT_OF_BOUNDS'']
   \<and> distinct (map fst Vault_EXIT_CODES)"
  unfolding Vault_EXIT_CODES_def by code_simp

section \<open>The bodies the builders produce\<close>

text \<open>
  For each builder, the body of a message it returns, field by field, and the bounds on
  the query id that the codec has enforced.
\<close>

lemma opcode_range: "0 \<le> opcode_of call \<and> opcode_of call < 2 ^ 32"
  by (cases call)
    (simp_all add: Opcodes_reinvest_def Opcodes_set_jetton_wallet_address_def
      Opcodes_set_deposit_lp_wallet_address_def Vault_OPS_transfer_notification_def
      Vault_OPS_reinvest_def Vault_OPS_set_strategy_address_def
      Vault_OPS_withdraw_management_fee_def Vault_OPS_set_is_locked_def
      Vault_OPS_set_management_fee_rate_def)

lemma reinvest_opcode_range:
  "0 \<le> Opcodes_reinvest" "Opcodes_reinvest < 2 ^ 32" "0 \<le> Vault_OPS_reinvest" "Vault_OPS_reinvest < 2 ^ 32"
  by (simp_all add: Opcodes_reinvest_def Vault_OPS_reinvest_def)

lemma first32_header:
  assumes "cell_bits c = uint_bits 32 v @ rest" and "0 \<le> v" and "v < 2 ^ 32"
  shows "first32 c = Inr v"
  using loadUint_uint_bits [OF assms(2,3), of rest "cell_refs c"] assms(1)
  by (simp add: first32_def beginParse_def)

lemma next64_header:
  assumes "cell_bits c = uint_bits 32 v @ uint_bits 64 q @ rest"
    and "0 \<le> v" and "v < 2 ^ 32" and "0 \<le> q" and "q < 2 ^ 64"
  shows "next64 c = Inr q"
  using loadUint_uint_bits [OF assms(2,3), of "uint_bits 64 q @ rest" "cell_refs c"]
    loadUint_uint_bits [OF assms(4,5), of rest "cell_refs c"] assms(1)
  by (simp add: next64_def beginParse_def)

lemma strategy_reinvest_body:
  assumes "TonJettonTonStrategy_sendReinvest opts = Inr m"
  shows "body m = Cell (coins_bits (totalReward opts))
           [Cell (uint_bits 32 Opcodes_reinvest @ uint_bits 64 (queryId_or_0 (queryId opts))
                  @ coins_bits (amountToSwap opts) @ coins_bits (limit opts)
                  @ uint_bits 32 (deadline opts) @ coins_bits (tonTargetBalance opts)
                  @ coins_bits (jettonTargetBalance opts)) []]
         \<and> 0 \<le> queryId_or_0 (queryId opts) \<and> queryId_or_0 (queryId opts) < 2 ^ 64"
  using assms unfolding TonJettonTonStrategy_sendReinvest_def
  by (auto dest!: store_dests elim!: bindE_InrE)

lemma vault_reinvest_body:
  assumes "Vault_sendReinvest opts = Inr m"
  shows "body m = Cell (uint_bits 32 Vault_OPS_reinvest @ uint_bits 64 (queryId_or_0 (queryId opts))
                  @ coins_bits (totalReward opts))
           [Cell (coins_bits (amountToSwap opts) @ coins_bits (limit opts)
                  @ uint_bits 32 (deadline opts) @ coins_bits (tonTargetBalance opts)
                  @ coins_bits (jettonTargetBalance opts) @ coins_bits (depositFee opts)
                  @ coins_bits (depositFwdFee opts) @ coins_bits (transferFee opts)) []]
         \<and> 0 \<le> queryId_or_0 (queryId opts) \<and> queryId_or_0 (queryId opts) < 2 ^ 64"
  using assms unfolding Vault_sendReinvest_def
  by (auto dest!: store_dests elim!: bindE_InrE)

lemma set_jetton_wallet_body:
  assumes "TonJettonTonStrategy_sendSetJettonWalletAddress opts = Inr m"
  shows "body m = Cell (uint_bits 32 Opcodes_set_jetton_wallet_address
                  @ uint_bits 64 (queryId_or_0 (queryId opts)) @ address_bits (walletAddress opts)) []
         \<and> 0 \<le> queryId_or_0 (queryId opts) \<and> queryId_or_0 (queryId opts) < 2 ^ 64"
  using assms unfolding TonJettonTonStrategy_sendSetJettonWalletAddress_def
  by (auto dest!: store_dests elim!: bindE_InrE)

lemma set_deposit_lp_wallet_body:
  assumes "TonJettonTonStrategy_sendSetDepositLpWalletAddress opts = Inr m"
  shows "body m = Cell (uint_bits 32 Opcodes_set_deposit_lp_wallet_address
                  @ uint_bits 64 (queryId_or_0 (queryId opts)) @ address_bits (walletAddress opts)) []
         \<and> 0 \<le> queryId_or_0 (queryId opts) \<and> queryId_or_0 (queryId opts) < 2 ^ 64"
  using assms unfolding TonJettonTonStrategy_sendSetDepositLpWalletAddress_def
  by (auto dest!: store_dests elim!: bindE_InrE)

lemma deposit_notification_body:
  assumes "Vault_sendDepositNotification opts = Inr m"
  shows "body m = Cell (uint_bits 32 Vault_OPS_transfer_notification
                  @ uint_bits 64 (queryId_or_0 (queryId opts)) @ coins_bits (jettonAmount opts)
                  @ address_bits (fromAddress opts) @ [True])
                  [Cell (uint_bits 32 Vault_OPS_deposit) []]
         \<and> 0 \<le> queryId_or_0 (queryId opts) \<and> queryId_or_0 (queryId opts) < 2 ^ 64"
  using assms unfolding Vault_sendDepositNotification_def prepareDepositPayload_def
  by (auto dest!: store_dests elim!: bindE_InrE)

lemma set_strategy_address_body:
  assumes "Vault_sendSetStrategyAddress opts = Inr m"
  shows "body m = Cell (uint_bits 32 Vault_OPS_set_strategy_address
                  @ uint_bits 64 (queryId_or_0 (queryId opts)) @ address_bits (strategyAddress opts)) []
         \<and> 0 \<le> queryId_or_0 (queryId opts) \<and> queryId_or_0 (queryId opts) < 2 ^ 64"
  using assms unfolding Vault_sendSetStrategyAddress_def
  by (auto dest!: store_dests elim!: bindE_InrE)

lemma withdraw_management_fee_body:
  assumes "Vault_sendWithdrawManagementFee opts = Inr m"
  shows "body m = Cell (uint_bits 32 Vault_OPS_withdraw_management_fee
                  @ uint_bits 64 (queryId_or_0 (queryId opts)) @ address_bits (receiver opts)
                  @ coins_bits (amount opts)) []
         \<and> 0 \<le> queryId_or_0 (queryId opts) \<and> queryId_or_0 (queryId opts) < 2 ^ 64"
  using assms unfolding Vault_sendWithdrawManagementFee_def
  by (auto dest!: store_dests elim!: bindE_InrE)

lemma set_is_locked_body:
  assumes "Vault_sendSetIsLocked opts = Inr m"
  shows "body m = Cell (uint_bits 32 Vault_OPS_set_is_locked
                  @ uint_bits 64 (queryId_or_0 (queryId opts)) @ uint_bits 1 (isLocked opts)) []
         \<and> 0 \<le> queryId_or_0 (queryId opts) \<and> queryId_or_0 (queryId opts) < 2 ^ 64"
  using assms unfolding Vault_sendSetIsLocked_def
  by (auto dest!: store_dests elim!: bindE_InrE)

lemma set_management_fee_rate_body:
  assumes "Vault_sendSetManagementFeeRate opts = Inr m"
  shows "body m = Cell (uint_bits 32 Vault_OPS_set_management_fee_rate
                  @ uint_bits 64 (queryId_or_0 (queryId opts))
                  @ uint_bits 16 (managementFeeRate opts)) []
         \<and> 0 \<le> queryId_or_0 (queryId opts) \<and> queryId_or_0 (queryId opts) < 2 ^ 64"
  using assms unfolding Vault_sendSetManagementFeeRate_def
  by (auto dest!: store_dests elim!: bindE_InrE)

lemmas builder_bodies =
  strategy_reinvest_body vault_reinvest_body set_jetton_wallet_body set_deposit_lp_wallet_body
  deposit_notification_body set_strategy_address_body withdraw_management_fee_body
  set_is_locked_body set_management_fee_rate_body

text \<open>
  Where each builder puts the opcode and the query id: at the start of the body, except
  for the strategy's reinvest, which puts them at the start of the body's only child.
\<close>

lemma build_header:
  assumes "build call = Inr m"
  shows "\<exists>h rest. cell_bits h = uint_bits 32 (opcode_of call)
                     @ uint_bits 64 (queryId_or_0 (queryId_of call)) @ rest
           \<and> 0 \<le> queryId_or_0 (queryId_of call) \<and> queryId_or_0 (queryId_of call) < 2 ^ 64
           \<and> (case call of StrategySendReinvest opts \<Rightarrow> cell_refs (body m) = [h]
               | _ \<Rightarrow> h = body m)"
  using assms by (cases call) (auto dest!: builder_bodies)

lemma strategy_reinvest_fields:
  assumes "TonJettonTonStrategy_sendReinvest opts = Inr m"
  shows "(0 \<le> totalReward opts \<and> byte_len (totalReward opts) < 16)
       \<and> (0 \<le> amountToSwap opts \<and> byte_len (amountToSwap opts) < 16)
       \<and> (0 \<le> limit opts \<and> byte_len (limit opts) < 16)
       \<and> (0 \<le> deadline opts \<and> deadline opts < 2 ^ 32)
       \<and> (0 \<le> tonTargetBalance opts \<and> byte_len (tonTargetBalance opts) < 16)
       \<and> (0 \<le> jettonTargetBalance opts \<and> byte_len (jettonTargetBalance opts) < 16)"
  using assms unfolding TonJettonTonStrategy_sendReinvest_def
  by (auto dest!: store_dests elim!: bindE_InrE)

lemma vault_reinvest_fields:
  assumes "Vault_sendReinvest opts = Inr m"
  shows "(0 \<le> totalReward opts \<and> byte_len (totalReward opts) < 16)
       \<and> (0 \<le> amountToSwap opts \<and> byte_len (amountToSwap opts) < 16)
       \<and> (0 \<le> limit opts \<and> byte_len (limit opts) < 16)
       \<and> (0 \<le> deadline opts \<and> deadline opts < 2 ^ 32)
       \<and> (0 \<le> tonTargetBalance opts \<and> byte_len (tonTargetBalance opts) < 16)
       \<and> (0 \<le> jettonTargetBalance opts \<and> byte_len (jettonTargetBalance opts) < 16)
       \<and> (0 \<le> depositFee opts \<and> byte_len (depositFee opts) < 16)
       \<and> (0 \<le> depositFwdFee opts \<and> byte_len (depositFwdFee opts) < 16)
       \<and> (0 \<le> transferFee opts \<and> byte_len (transferFee opts) < 16)"
  using assms unfolding Vault_sendReinvest_def
  by (auto dest!: store_dests elim!: bindE_InrE)

lemma vault_reinvest_reads:
  assumes "Vault_sendReinvest opts = Inr m"
  shows "\<exists>child.
     read_fields [FUint 32, FUint 64, FCoins] (beginParse (body m))
       = Inr ([Vault_OPS_reinvest, queryId_or_0 (queryId opts), totalReward opts],
              \<lparr>s_bits = [], s_refs = [child]\<rparr>)
     \<and> read_fields [FCoins, FCoins, FUint 32, FCoins, FCoins, FCoins, FCoins, FCoins]
         (beginParse child)
       = Inr ([amountToSwap opts, limit opts, deadline opts, tonTargetBalance opts,
               jettonTargetBalance opts, depositFee opts, depositFwdFee opts, transferFee opts],
              \<lparr>s_bits = [], s_refs = []\<rparr>)"
proof -
  note b = vault_reinvest_body [OF assms] and f = vault_reinvest_fields [OF assms]
  let ?child = "Cell (coins_bits (amountToSwap opts) @ coins_bits (limit opts)
                  @ uint_bits 32 (deadline opts) @ coins_bits (tonTargetBalance opts)
                  @ coins_bits (jettonTargetBalance opts) @ coins_bits (depositFee opts)
                  @ coins_bits (depositFwdFee opts) @ coins_bits (transferFee opts)) []"
  have outer: "read_fields [FUint 32, FUint 64, FCoins] (beginParse (body m))
       = Inr ([Vault_OPS_reinvest, queryId_or_0 (queryId opts), totalReward opts],
              \<lparr>s_bits = [], s_refs = [?child]\<rparr>)"
    using b f reinvest_opcode_range
    by (simp add: beginParse_def load_simps)
  have inner: "read_fields [FCoins, FCoins, FUint 32, FCoins, FCoins, FCoins, FCoins, FCoins]
         (beginParse ?child)
       = Inr ([amountToSwap opts, limit opts, deadline opts, tonTargetBalance opts,
               jettonTargetBalance opts, depositFee opts, depositFwdFee opts, transferFee opts],
              \<lparr>s_bits = [], s_refs = []\<rparr>)"
    using f by (simp add: beginParse_def load_simps)
  from outer inner show ?thesis by blast
qed

lemma strategy_reinvest_reads:
  assumes "TonJettonTonStrategy_sendReinvest opts = Inr m"
  shows "\<exists>child.
     read_fields [FCoins] (beginParse (body m))
       = Inr ([totalReward opts], \<lparr>s_bits = [], s_refs = [child]\<rparr>)
     \<and> read_fields [FUint 32, FUint 64, FCoins, FCoins, FUint 32, FCoins, FCoins]
         (beginParse child)
       = Inr ([Opcodes_reinvest, queryId_or_0 (queryId opts), amountToSwap opts, limit opts,
               deadline opts, tonTargetBalance opts, jettonTargetBalance opts],
              \<lparr>s_bits = [], s_refs = []\<rparr>)"
proof -
  note b = strategy_reinvest_body [OF assms] and f = strategy_reinvest_fields [OF assms]
  let ?child = "Cell (uint_bits 32 Opcodes_reinvest @ uint_bits 64 (queryId_or_0 (queryId opts))
                  @ coins_bits (amountToSwap opts) @ coins_bits (limit opts)
                  @ uint_bits 32 (deadline opts) @ coins_bits (tonTargetBalance opts)
                  @ coins_bits (jettonTargetBalance opts)) []"
  have outer: "read_fields [FCoins] (beginParse (body m))
       = Inr ([totalReward opts], \<lparr>s_bits = [], s_refs = [?child]\<rparr>)"
    using b f by (simp add: beginParse_def load_simps)
  have inner: "read_fields [FUint 32, FUint 64, FCoins, FCoins, FUint 32, FCoins, FCoins]
         (beginParse ?child)
       = Inr ([Opcodes_reinvest, queryId_or_0 (queryId opts), amountToSwap opts, limit opts,
               deadline opts, tonTargetBalance opts, jettonTargetBalance opts],
              \<lparr>s_bits = [], s_refs = []\<rparr>)"
    using b f reinvest_opcode_range
    by (simp add: beginParse_def load_simps)
  from outer inner show ?thesis by blast
qed

lemma fee_rate_accepted:
  assumes "0 \<le> managementFeeRate opts" and "managementFeeRate opts < 2 ^ 16"
    and "0 \<le> queryId_or_0 (queryId opts)" and "queryId_or_0 (queryId opts) < 2 ^ 64"
  shows "\<exists>m. Vault_sendSetManagementFeeRate opts = Inr m
           \<and> rate_field (body m) = Inr (managementFeeRate opts)
           \<and> length (cell_bits (body m)) = 112"
proof -
  have "\<exists>m. Vault_sendSetManagementFeeRate opts = Inr m"
    using assms
    by (simp add: Vault_sendSetManagementFeeRate_def provider_internal_def endCell_def
        beginCell_def storeUint_def writeBits_def Vault_OPS_set_management_fee_rate_def)
  then obtain m where m: "Vault_sendSetManagementFeeRate opts = Inr m" ..
  have op: "0 \<le> Vault_OPS_set_management_fee_rate" "Vault_OPS_set_management_fee_rate < 2 ^ 32"
    by (simp_all add: Vault_OPS_set_management_fee_rate_def)
  from set_management_fee_rate_body [OF m] assms op
  have "rate_field (body m) = Inr (managementFeeRate opts)"
    by (simp add: rate_field_def beginParse_def load_simps endParse_def)
  moreover from set_management_fee_rate_body [OF m]
  have "length (cell_bits (body m)) = 112"
    by simp
  ultimately show ?thesis
    using m by blast
qed

lemma fee_rate_rejected:
  assumes "managementFeeRate opts < 0 \<or> 2 ^ 16 \<le> managementFeeRate opts"
  shows "Vault_sendSetManagementFeeRate opts = Inl RangeError"
  using assms
  by (auto simp: Vault_sendSetManagementFeeRate_def provider_internal_def endCell_def
      beginCell_def storeUint_def writeBits_def Vault_OPS_set_management_fee_rate_def)

subsection \<open>The layout of the two reinvest bodies\<close>

text \<open>
  C1, as amended. The vault's \<open>sendReinvest\<close> writes the opcode, the query id and the
  coins of \<open>totalReward\<close> as the flat fields of the outer cell, and one child cell that
  holds exactly the swap amount, the limit, the deadline, the two target balances and the
  three fee components \<open>depositFee\<close>, \<open>depositFwdFee\<close> and \<open>transferFee\<close>. The strategy's
  \<open>sendReinvest\<close> writes the coins of \<open>totalReward\<close> as the only flat field of the outer
  cell, and one child cell that holds exactly the opcode, the query id, the swap amount,
  the limit, the deadline and the two target balances. Neither body has another reference.
\<close>

theorem reinvest_body_layout:
  "(Vault_sendReinvest vopts = Inr vm \<longrightarrow>
      (\<exists>child.
         read_fields [FUint 32, FUint 64, FCoins] (beginParse (body vm))
           = Inr ([Vault_OPS_reinvest, queryId_or_0 (queryId vopts), totalReward vopts],
                  \<lparr>s_bits = [], s_refs = [child]\<rparr>)
         \<and> read_fields [FCoins, FCoins, FUint 32, FCoins, FCoins, FCoins, FCoins, FCoins]
             (beginParse child)
           = Inr ([amountToSwap vopts, limit vopts, deadline vopts, tonTargetBalance vopts,
                   jettonTargetBalance vopts, depositFee vopts, depositFwdFee vopts,
                   transferFee vopts],
                  \<lparr>s_bits = [], s_refs = []\<rparr>)))
   \<and> (TonJettonTonStrategy_sendReinvest sopts = Inr sm \<longrightarrow>
      (\<exists>child.
         read_fields [FCoins] (beginParse (body sm))
           = Inr ([totalReward sopts], \<lparr>s_bits = [], s_refs = [child]\<rparr>)
         \<and> read_fields [FUint 32, FUint 64, FCoins, FCoins, FUint 32, FCoins, FCoins]
             (beginParse child)
           = Inr ([Opcodes_reinvest, queryId_or_0 (queryId sopts), amountToSwap sopts,
                   limit sopts, deadline sopts, tonTargetBalance sopts,
                   jettonTargetBalance sopts],
                  \<lparr>s_bits = [], s_refs = []\<rparr>)))"
  using vault_reinvest_reads [of vopts vm] strategy_reinvest_reads [of sopts sm]
  by blast

text \<open>
  The layout at a vault reinvest and a strategy reinvest that the codec accepts.
\<close>

theorem reinvest_body_layout_witness:
  "(\<exists>child.
      read_fields [FUint 32, FUint 64, FCoins]
        (beginParse (body (projr (Vault_sendReinvest example_vault_reinvest))))
        = Inr ([135451875, 0, 1000000000], \<lparr>s_bits = [], s_refs = [child]\<rparr>)
      \<and> read_fields [FCoins, FCoins, FUint 32, FCoins, FCoins, FCoins, FCoins, FCoins]
          (beginParse child)
        = Inr ([400000000, 1, 1700000000, 7, 9, 300000000, 250000000, 50000000],
               \<lparr>s_bits = [], s_refs = []\<rparr>))
   \<and> (\<exists>child.
      read_fields [FCoins]
        (beginParse (body (projr (TonJettonTonStrategy_sendReinvest example_strategy_reinvest))))
        = Inr ([1000000000], \<lparr>s_bits = [], s_refs = [child]\<rparr>)
      \<and> read_fields [FUint 32, FUint 64, FCoins, FCoins, FUint 32, FCoins, FCoins]
          (beginParse child)
        = Inr ([135451875, 0, 400000000, 1, 1700000000, 7, 9], \<lparr>s_bits = [], s_refs = []\<rparr>))"
proof -
  have "\<not> isl (Vault_sendReinvest example_vault_reinvest)"
    by code_simp
  then have v: "Vault_sendReinvest example_vault_reinvest
                  = Inr (projr (Vault_sendReinvest example_vault_reinvest))"
    by (rule Inr_projr)
  have "\<not> isl (TonJettonTonStrategy_sendReinvest example_strategy_reinvest)"
    by code_simp
  then have s: "TonJettonTonStrategy_sendReinvest example_strategy_reinvest
                  = Inr (projr (TonJettonTonStrategy_sendReinvest example_strategy_reinvest))"
    by (rule Inr_projr)
  show ?thesis
    using reinvest_body_layout [of example_vault_reinvest
        "projr (Vault_sendReinvest example_vault_reinvest)" example_strategy_reinvest
        "projr (TonJettonTonStrategy_sendReinvest example_strategy_reinvest)"] v s
    by (simp add: example_vault_reinvest_def example_strategy_reinvest_def queryId_or_0_def
        Vault_OPS_reinvest_def Opcodes_reinvest_def)
qed

text \<open>
  C1 as stated fails: at these two inputs the flat fields of the outer cell are not the
  opcode and the query id alone. The vault's outer cell has 132 bits, the 96 of the opcode
  and the query id and the 36 of \<open>totalReward\<close>; the strategy's outer cell has the 36 bits of
  \<open>totalReward\<close> and no opcode.
\<close>

theorem reinvest_outer_cell_counterexample:
  "\<not> isl (Vault_sendReinvest example_vault_reinvest)
   \<and> \<not> outer_only_opcode_and_query_id Vault_OPS_reinvest
         (body (projr (Vault_sendReinvest example_vault_reinvest)))
   \<and> length (cell_bits (body (projr (Vault_sendReinvest example_vault_reinvest)))) = 132
   \<and> \<not> isl (TonJettonTonStrategy_sendReinvest example_strategy_reinvest)
   \<and> \<not> outer_only_opcode_and_query_id Opcodes_reinvest
         (body (projr (TonJettonTonStrategy_sendReinvest example_strategy_reinvest)))
   \<and> length (cell_bits (body (projr (TonJettonTonStrategy_sendReinvest
         example_strategy_reinvest)))) = 36"
  by code_simp

subsection \<open>The opcode of a body\<close>

text \<open>
  C2, as amended. For every builder but the strategy's \<open>sendReinvest\<close> and every options
  record for which it returns a message, the first 32 bits of the body decode to the
  opcode of the operation. For the strategy's \<open>sendReinvest\<close> the body starts with the coins
  of \<open>totalReward\<close>, which are its only flat field, and has exactly one child cell, whose
  first 32 bits decode to the reinvest opcode.
\<close>

theorem opcode_first_32_bits:
  assumes "build call = Inr m"
  shows "case call of
           StrategySendReinvest opts \<Rightarrow>
             (case cell_refs (body m) of
                [h] \<Rightarrow> first32 h = Inr Opcodes_reinvest
                       \<and> read_fields [FCoins] (beginParse (body m))
                           = Inr ([totalReward opts], \<lparr>s_bits = [], s_refs = [h]\<rparr>)
              | _ \<Rightarrow> False)
         | _ \<Rightarrow> first32 (body m) = Inr (opcode_of call)"
proof -
  from build_header [OF assms] obtain h rest where
    h: "cell_bits h = uint_bits 32 (opcode_of call)
          @ (uint_bits 64 (queryId_or_0 (queryId_of call)) @ rest)"
    and loc: "case call of StrategySendReinvest opts \<Rightarrow> cell_refs (body m) = [h]
               | _ \<Rightarrow> h = body m"
    by auto
  have first: "first32 h = Inr (opcode_of call)"
    using h opcode_range [of call] by (intro first32_header) auto
  show ?thesis
  proof (cases call)
    case (StrategySendReinvest opts)
    with assms have b: "TonJettonTonStrategy_sendReinvest opts = Inr m"
      by simp
    from strategy_reinvest_reads [OF b] obtain child where
      "read_fields [FCoins] (beginParse (body m))
         = Inr ([totalReward opts], \<lparr>s_bits = [], s_refs = [child]\<rparr>)"
      by blast
    moreover from strategy_reinvest_body [OF b] this have "cell_refs (body m) = [child]"
      by (auto simp: beginParse_def loadCoins_def loadUint_def bindE_def split: sum.splits if_splits)
    ultimately show ?thesis
      using StrategySendReinvest loc first by simp
  qed (use loc first in auto)
qed

text \<open>
  The nine builders, each at an options record that it accepts.
\<close>

theorem opcode_first_32_bits_witness:
  "list_all (\<lambda>call. \<not> isl (build call) \<and>
      (case call of
         StrategySendReinvest opts \<Rightarrow>
           (case cell_refs (body (projr (build call))) of
              [h] \<Rightarrow> first32 h = Inr Opcodes_reinvest
                     \<and> read_fields [FCoins] (beginParse (body (projr (build call))))
                         = Inr ([totalReward opts], \<lparr>s_bits = [], s_refs = [h]\<rparr>)
            | _ \<Rightarrow> False)
       | _ \<Rightarrow> first32 (body (projr (build call))) = Inr (opcode_of call)))
     example_calls"
proof -
  have ok: "list_all (\<lambda>call. \<not> isl (build call)) example_calls"
    by code_simp
  show ?thesis
    unfolding list_all_iff
  proof (intro ballI conjI)
    fix call assume "call \<in> set example_calls"
    with ok show ok': "\<not> isl (build call)"
      by (simp add: list_all_iff)
    from opcode_first_32_bits [OF Inr_projr [OF ok']]
    show "case call of
         StrategySendReinvest opts \<Rightarrow>
           (case cell_refs (body (projr (build call))) of
              [h] \<Rightarrow> first32 h = Inr Opcodes_reinvest
                     \<and> read_fields [FCoins] (beginParse (body (projr (build call))))
                         = Inr ([totalReward opts], \<lparr>s_bits = [], s_refs = [h]\<rparr>)
            | _ \<Rightarrow> False)
       | _ \<Rightarrow> first32 (body (projr (build call))) = Inr (opcode_of call)" .
  qed
qed

text \<open>
  C2 as stated fails for the strategy's \<open>sendReinvest\<close>: with \<open>totalReward = 1000000000\<close>
  the first 32 bits of the body are the length nibble 4 and the first 28 bits of the
  amount, 0x43b9aca0, and not the reinvest opcode 0x812d4e3.
\<close>

theorem strategy_reinvest_first_32_bits_counterexample:
  "\<not> isl (build (StrategySendReinvest example_strategy_reinvest))
   \<and> first32 (body (projr (build (StrategySendReinvest example_strategy_reinvest))))
       = Inr 1136241824
   \<and> opcode_of (StrategySendReinvest example_strategy_reinvest) = 135451875"
  by code_simp

subsection \<open>The default query id\<close>

text \<open>
  C5. For every builder that takes an optional \<open>queryId\<close> and every options record that
  omits it, the 64-bit query-id field of the message body it produces decodes to 0. The
  field follows the opcode: in the body, and for the strategy's \<open>sendReinvest\<close> in the
  body's child cell.
\<close>

theorem omitted_query_id_is_zero:
  assumes "build call = Inr m" and "queryId_of call = None"
  shows "case call of
           StrategySendReinvest opts \<Rightarrow>
             (case cell_refs (body m) of [h] \<Rightarrow> next64 h = Inr 0 | _ \<Rightarrow> False)
         | _ \<Rightarrow> next64 (body m) = Inr 0"
proof -
  from build_header [OF assms(1)] obtain h rest where
    h: "cell_bits h = uint_bits 32 (opcode_of call)
          @ uint_bits 64 (queryId_or_0 (queryId_of call)) @ rest"
    and loc: "case call of StrategySendReinvest opts \<Rightarrow> cell_refs (body m) = [h]
               | _ \<Rightarrow> h = body m"
    by auto
  have "queryId_or_0 (queryId_of call) = 0"
    using assms(2) by (simp add: queryId_or_0_def)
  with h have "next64 h = Inr 0"
    using opcode_range [of call] by (intro next64_header [where rest = rest]) auto
  with loc show ?thesis
    by (cases call) auto
qed

text \<open>
  The nine builders, each at an accepted options record without \<open>queryId\<close>.
\<close>

theorem omitted_query_id_is_zero_witness:
  "list_all (\<lambda>call. \<not> isl (build call) \<and> queryId_of call = None \<and>
      (case call of
         StrategySendReinvest opts \<Rightarrow>
           (case cell_refs (body (projr (build call))) of
              [h] \<Rightarrow> next64 h = Inr 0 | _ \<Rightarrow> False)
       | _ \<Rightarrow> next64 (body (projr (build call))) = Inr 0))
     example_calls"
proof -
  have ok: "list_all (\<lambda>call. \<not> isl (build call) \<and> queryId_of call = None) example_calls"
    by code_simp
  show ?thesis
    unfolding list_all_iff
  proof (intro ballI conjI)
    fix call assume "call \<in> set example_calls"
    with ok show ok': "\<not> isl (build call)" and none: "queryId_of call = None"
      by (simp_all add: list_all_iff)
    from omitted_query_id_is_zero [OF Inr_projr [OF ok'] none]
    show "case call of
         StrategySendReinvest opts \<Rightarrow>
           (case cell_refs (body (projr (build call))) of
              [h] \<Rightarrow> next64 h = Inr 0 | _ \<Rightarrow> False)
       | _ \<Rightarrow> next64 (body (projr (build call))) = Inr 0" .
  qed
qed

subsection \<open>The width of the management fee rate\<close>

text \<open>
  C10. The \<open>set_management_fee_rate\<close> message encodes the rate in exactly 16 bits: for
  every options record with \<open>0 \<le> managementFeeRate < 2^16\<close> (its query id omitted or a
  valid 64-bit one), \<open>sendSetManagementFeeRate\<close> produces a body of 112 bits whose rate
  field decodes to \<open>managementFeeRate\<close>, and for every \<open>managementFeeRate\<close> that is negative
  or at least \<open>2^16\<close> the construction fails with a \<open>RangeError\<close>, whatever the query id.
  All this even though the vault's \<open>MANAGEMENT_FEE_PRECISION\<close> is 10000 and the coin-encoded
  rate field of the config cell admits wider values: a config with the rate \<open>2^16\<close> is
  encoded.
\<close>

theorem management_fee_rate_16_bits:
  "(0 \<le> managementFeeRate opts \<and> managementFeeRate opts < 2 ^ 16
      \<and> 0 \<le> queryId_or_0 (queryId opts) \<and> queryId_or_0 (queryId opts) < 2 ^ 64 \<longrightarrow>
      (\<exists>m. Vault_sendSetManagementFeeRate opts = Inr m
         \<and> rate_field (body m) = Inr (managementFeeRate opts)
         \<and> length (cell_bits (body m)) = 112))
   \<and> (managementFeeRate opts < 0 \<or> 2 ^ 16 \<le> managementFeeRate opts \<longrightarrow>
        Vault_sendSetManagementFeeRate opts = Inl RangeError)
   \<and> Vault_MANAGEMENT_FEE_PRECISION = 10000
   \<and> VaultConfig.managementFeeRate example_config = 2 ^ 16
   \<and> \<not> isl (vaultConfigToCell example_config)"
proof -
  have "VaultConfig.managementFeeRate example_config = 2 ^ 16"
    by (simp add: example_config_def)
  moreover have "\<not> isl (vaultConfigToCell example_config)"
    by code_simp
  ultimately show ?thesis
    using fee_rate_accepted [of opts] fee_rate_rejected [of opts]
    by (simp add: Vault_MANAGEMENT_FEE_PRECISION_def)
qed

text \<open>
  An accepted rate with a query id, and a rate of 17 bits.
\<close>

theorem management_fee_rate_16_bits_witness:
  "(\<exists>m. Vault_sendSetManagementFeeRate example_rate = Inr m
       \<and> rate_field (body m) = Inr 250 \<and> length (cell_bits (body m)) = 112)
   \<and> Vault_sendSetManagementFeeRate example_rate_too_wide = Inl RangeError"
  using management_fee_rate_16_bits [of example_rate]
    management_fee_rate_16_bits [of example_rate_too_wide]
  by (simp add: example_rate_def example_rate_too_wide_def queryId_or_0_def)

section \<open>Runs of the orchestrator\<close>

text \<open>
  What the retries of \<open>wait\<close> and the two callbacks append to the world.
\<close>

lemma attempt_appends:
  assumes "\<And>w. \<exists>evs. snd (action w) = w @ evs \<and> list_all P evs"
  shows "\<exists>evs. snd (attempt n action w) = w @ evs \<and> list_all P evs"
proof (induction n arbitrary: w)
  case 0
  then show ?case using assms by simp
next
  case (Suc n)
  obtain r w' where a: "action w = (r, w')"
    by (cases "action w")
  with assms [of w] obtain evs where evs: "w' = w @ evs" "list_all P evs"
    by auto
  show ?case
  proof (cases "r = Inl SubmissionError")
    case True
    from Suc.IH [of w'] obtain evs' where "snd (attempt n action w') = w' @ evs'" "list_all P evs'"
      by blast
    with evs a True show ?thesis
      by (intro exI [of _ "evs @ evs'"]) simp
  next
    case False
    with a have "attempt (Suc n) action w = (r, w')"
      by (cases r) auto
    with evs show ?thesis
      by auto
  qed
qed


lemma wait_shape:
  assumes "\<And>w. \<exists>evs. snd (action w) = w @ evs \<and> list_all P evs"
  shows "\<exists>evs. list_all P evs \<and>
           ((\<exists>e. wait env key action w = (Inl e, w @ WaitCall key # evs))
            \<or> (\<exists>h. wait env key action w = (Inr h, w @ WaitCall key # evs @ [WaitReturn key h])))"
proof -
  from attempt_appends [of action P "retryBudget env" "w @ [WaitCall key]", OF assms]
  obtain evs where evs: "snd (attempt (retryBudget env) action (w @ [WaitCall key]))
      = (w @ [WaitCall key]) @ evs" "list_all P evs"
    by blast
  obtain r w' where a: "attempt (retryBudget env) action (w @ [WaitCall key]) = (r, w')"
    by (cases "attempt (retryBudget env) action (w @ [WaitCall key])")
  with evs have w': "w' = w @ WaitCall key # evs"
    by simp
  show ?thesis
  proof (cases r)
    case (Inl e)
    with a w' evs(2) show ?thesis
      by (auto simp: wait_def)
  next
    case (Inr u)
    with a w' evs(2) show ?thesis
      by (cases "confirmedHash env w' key") (auto simp: wait_def)
  qed
qed

lemma distributionAction_appends:
  "\<exists>evs. snd (distributionAction env vd r p w) = w @ evs
     \<and> list_all (\<lambda>e. is_preparation e \<or> is_distribution e) evs"
  by (auto simp: distributionAction_def Let_def split: sum.splits)

lemma fundingAction_appends:
  "\<exists>evs. snd (fundingAction env to v w) = w @ evs \<and> list_all (\<lambda>e. e = GovernorSend to v) evs"
  by (simp add: fundingAction_def)

lemma attempt_funding:
  "\<exists>F. snd (attempt n (fundingAction env to v) w) = w @ GovernorSend to v # F
       \<and> list_all (\<lambda>e. e = GovernorSend to v) F"
proof (induction n arbitrary: w)
  case 0
  then show ?case by (simp add: fundingAction_def)
next
  case (Suc n)
  from Suc.IH [of "w @ [GovernorSend to v]"] show ?case
    by (auto simp: fundingAction_def split: sum.splits)
qed

lemma wait_funding_shape:
  "\<exists>F. list_all (\<lambda>e. e = GovernorSend to v) F \<and>
     ((\<exists>e. wait env key (fundingAction env to v) w
             = (Inl e, w @ WaitCall key # GovernorSend to v # F))
      \<or> (\<exists>h. wait env key (fundingAction env to v) w
             = (Inr h, w @ WaitCall key # GovernorSend to v # F @ [WaitReturn key h])))"
proof -
  let ?a = "attempt (retryBudget env) (fundingAction env to v) (w @ [WaitCall key])"
  from attempt_funding [of "retryBudget env" env to v "w @ [WaitCall key]"]
  obtain F where F: "snd ?a = w @ WaitCall key # GovernorSend to v # F"
      "list_all (\<lambda>e. e = GovernorSend to v) F"
    by auto
  obtain r w' where a: "?a = (r, w')"
    by (cases ?a)
  with F(1) have w': "w' = w @ WaitCall key # GovernorSend to v # F"
    by simp
  show ?thesis
  proof (cases r)
    case (Inl e)
    with a w' F(2) show ?thesis
      by (auto simp: wait_def)
  next
    case (Inr u)
    with a w' F(2) show ?thesis
      by (cases "confirmedHash env w' key") (auto simp: wait_def)
  qed
qed

lemma wait_funding_sent:
  "\<exists>evs. snd (wait env key (fundingAction env to v) w)
          = w @ WaitCall key # GovernorSend to v # evs"
  using wait_funding_shape [of to v env key w] by auto

lemma wait_distribution_extends:
  "\<exists>evs. snd (wait env key (distributionAction env vd r p) w) = w @ evs"
  using wait_shape [of "distributionAction env vd r p"
      "\<lambda>e. is_preparation e \<or> is_distribution e" env key w] distributionAction_appends
  by (metis snd_conv)

text \<open>
What one vault appends to the world.
\<close>

lemma processVault_shape:
  "snd (processVault env address vd w) = w
   \<or> (\<exists>pool A T.
        snd (processVault env address vd w) = w @ GetPoolExtraData pool # T
        \<and> Address_parse env (extraDistributionPool vd) = Inr pool
        \<and> (T = []
           \<or> (list_all (\<lambda>e. is_preparation e \<or> is_distribution e) A
              \<and> (T = WaitCall address # A
                 \<or> (\<exists>h s F d. getPoolExtraData env w pool = Inr d
                      \<and> list_all (\<lambda>e. e = GovernorSend (tokenWalletAddress d)
                                           (toNano (1 / 10) + toNano (5 / 100))) F
                      \<and> (T = WaitCall address # A @ WaitReturn address h # ConsoleLog s
                              # WaitCall address # F
                         \<or> (\<exists>h' s'. T = WaitCall address # A @ WaitReturn address h
                              # ConsoleLog s # WaitCall address # F
                              @ [WaitReturn address h', ConsoleLog s'])))))))"
proof (cases "Address_parse env (extraDistributionPool vd)")
  case (Inl e)
  then show ?thesis by (simp add: processVault_def)
next
  case pool: (Inr pool)
  show ?thesis
  proof (cases "getPoolExtraData env w pool")
    case (Inl e)
    with pool show ?thesis by (simp add: processVault_def)
  next
    case d: (Inr d)
    let ?w1 = "w @ [GetPoolExtraData pool]"
    let ?act1 = "distributionAction env vd (toNano (1 / 10)) pool"
    from wait_shape [of ?act1 "\<lambda>e. is_preparation e \<or> is_distribution e" env address ?w1]
      distributionAction_appends
    obtain A where A: "list_all (\<lambda>e. is_preparation e \<or> is_distribution e) A"
      and w1: "(\<exists>e. wait env address ?act1 ?w1 = (Inl e, ?w1 @ WaitCall address # A))
            \<or> (\<exists>h. wait env address ?act1 ?w1
                  = (Inr h, ?w1 @ WaitCall address # A @ [WaitReturn address h]))"
      by blast
    from w1 show ?thesis
    proof (elim disjE exE)
      fix e assume "wait env address ?act1 ?w1 = (Inl e, ?w1 @ WaitCall address # A)"
      with pool d A show ?thesis
        by (simp add: processVault_def Let_def) blast
    next
      fix h assume h: "wait env address ?act1 ?w1
                  = (Inr h, ?w1 @ WaitCall address # A @ [WaitReturn address h])"
      let ?s = "''Extra rewards distribution hash: '' @ h @ ''. Link:'' @ TONVIEWER_URL env
                  @ ''/transaction/'' @ h"
      let ?w3 = "(?w1 @ WaitCall address # A @ [WaitReturn address h]) @ [ConsoleLog ?s]"
      let ?act2 = "fundingAction env (tokenWalletAddress d) (toNano (1 / 10) + toNano (5 / 100))"
      from wait_shape [of ?act2 "\<lambda>e. e = GovernorSend (tokenWalletAddress d)
                          (toNano (1 / 10) + toNano (5 / 100))" env address ?w3]
        fundingAction_appends
      obtain F where F: "list_all (\<lambda>e. e = GovernorSend (tokenWalletAddress d)
                          (toNano (1 / 10) + toNano (5 / 100))) F"
        and w3: "(\<exists>e. wait env address ?act2 ?w3 = (Inl e, ?w3 @ WaitCall address # F))
            \<or> (\<exists>h'. wait env address ?act2 ?w3
                  = (Inr h', ?w3 @ WaitCall address # F @ [WaitReturn address h']))"
        by blast
      from w3 show ?thesis
      proof (elim disjE exE)
        fix e assume "wait env address ?act2 ?w3 = (Inl e, ?w3 @ WaitCall address # F)"
        with pool d A F h show ?thesis
          by (simp add: processVault_def Let_def) blast
      next
        fix h' assume "wait env address ?act2 ?w3
                  = (Inr h', ?w3 @ WaitCall address # F @ [WaitReturn address h'])"
        with pool d A F h show ?thesis
          by (simp add: processVault_def Let_def) blast
      qed
    qed
  qed
qed

lemma processVault_extends: "\<exists>evs. snd (processVault env address vd w) = w @ evs"
  using processVault_shape [of env address vd w] by auto

lemma processVault_completes:
  assumes "processVault env address vd w = (Inr u, w')"
    and pool: "Address_parse env (extraDistributionPool vd) = Inr pool"
    and d: "getPoolExtraData env w pool = Inr d"
  shows "GovernorSend (tokenWalletAddress d) (toNano (1 / 10) + toNano (5 / 100))
           \<in> set (drop (length w) w')"
proof -
  let ?w1 = "w @ [GetPoolExtraData pool]"
  let ?act1 = "distributionAction env vd (toNano (1 / 10)) pool"
  let ?act2 = "fundingAction env (tokenWalletAddress d) (toNano (1 / 10) + toNano (5 / 100))"
  obtain r1 w2 where w1: "wait env address ?act1 ?w1 = (r1, w2)"
    by (cases "wait env address ?act1 ?w1")
  with wait_distribution_extends [of env address vd "toNano (1 / 10)" pool ?w1]
  obtain evs1 where w2: "w2 = ?w1 @ evs1"
    by auto
  from assms w1 obtain h where r1: "r1 = Inr h"
    by (cases r1) (auto simp: processVault_def Let_def)
  let ?w3 = "w2 @ [ConsoleLog (''Extra rewards distribution hash: '' @ h @ ''. Link:''
                      @ TONVIEWER_URL env @ ''/transaction/'' @ h)]"
  obtain r2 w4 where w3: "wait env address ?act2 ?w3 = (r2, w4)"
    by (cases "wait env address ?act2 ?w3")
  with wait_funding_sent [of env address "tokenWalletAddress d"
      "toNano (1 / 10) + toNano (5 / 100)" ?w3]
  obtain evs2 where w4: "w4 = ?w3 @ WaitCall address
      # GovernorSend (tokenWalletAddress d) (toNano (1 / 10) + toNano (5 / 100)) # evs2"
    by auto
  from assms w1 r1 w3 obtain s where "w' = w4 @ [ConsoleLog s]"
    by (cases r2) (auto simp: processVault_def Let_def)
  with w4 w2 show ?thesis
    by simp
qed

lemma forEachVault_append:
  "forEachVault env address (pre @ post) w =
     (case forEachVault env address pre w of
        (Inl e, w') \<Rightarrow> (Inl e, w')
      | (Inr u, w') \<Rightarrow> forEachVault env address post w')"
  by (induction pre arbitrary: w) (auto split: prod.splits sum.splits)

text \<open>What a vault processed to its end has appended.\<close>

lemma distributionAction_success:
  assumes "distributionAction env vd r pool w = (Inr u, w')"
  shows "\<exists>v dict.
           Address_parse env (vault vd) = Inr v
           \<and> prepareExtraRewards env w v r pool = Inr dict
           \<and> w' = w @ PrepareExtraRewards v r pool
                     # (if 0 < dict_size dict then [DistributeRewards dict pool] else [])"
  using assms
  by (auto simp: distributionAction_def Let_def split: sum.splits if_splits)

lemma attempt_distribution_success:
  assumes "attempt n (distributionAction env vd r pool) w = (Inr u, w')"
  shows "\<exists>A v dict.
           list_all (\<lambda>e. is_preparation e \<or> is_distribution e) A
           \<and> Address_parse env (vault vd) = Inr v
           \<and> prepareExtraRewards env (w @ A) v r pool = Inr dict
           \<and> w' = w @ A @ PrepareExtraRewards v r pool
                     # (if 0 < dict_size dict then [DistributeRewards dict pool] else [])"
  using assms
proof (induction n arbitrary: w)
  case 0
  then have "distributionAction env vd r pool w = (Inr u, w')"
    by simp
  from distributionAction_success [OF this] show ?case
    by (intro exI [of _ "[]"]) simp
next
  case (Suc n)
  obtain r1 w1 where a: "distributionAction env vd r pool w = (r1, w1)"
    by (cases "distributionAction env vd r pool w")
  show ?case
  proof (cases r1)
    case (Inr u1)
    with a Suc.prems have "distributionAction env vd r pool w = (Inr u, w')"
      by simp
    from distributionAction_success [OF this] show ?thesis
      by (intro exI [of _ "[]"]) simp
  next
    case (Inl e)
    with a Suc.prems have rest: "attempt n (distributionAction env vd r pool) w1 = (Inr u, w')"
      by (auto split: if_splits)
    from distributionAction_appends [of env vd r pool w] a
    obtain evs where evs: "w1 = w @ evs" "list_all (\<lambda>e. is_preparation e \<or> is_distribution e) evs"
      by auto
    from Suc.IH [OF rest] obtain A v dict where
      A: "list_all (\<lambda>e. is_preparation e \<or> is_distribution e) A"
      and v: "Address_parse env (vault vd) = Inr v"
      and p: "prepareExtraRewards env (w1 @ A) v r pool = Inr dict"
      and w': "w' = w1 @ A @ PrepareExtraRewards v r pool
                     # (if 0 < dict_size dict then [DistributeRewards dict pool] else [])"
      by blast
    from evs A v p w' show ?thesis
      by (intro exI [of _ "evs @ A"] exI [of _ v] exI [of _ dict]) simp
  qed
qed

lemma attempt_funding_success:
  assumes "attempt n (fundingAction env to v) w = (r, w')"
  shows "\<exists>F. list_all (\<lambda>e. e = GovernorSend to v) F \<and> w' = w @ GovernorSend to v # F"
  using attempt_funding [of n env to v w] assms by auto

lemma wait_returns:
  assumes "wait env key action w = (Inr h, w')"
  shows "\<exists>u w1. attempt (retryBudget env) action (w @ [WaitCall key]) = (Inr u, w1)
           \<and> w' = w1 @ [WaitReturn key h]"
  using assms by (auto simp: wait_def split: prod.splits sum.splits)

lemma processVault_completed_shape:
  assumes "processVault env key vd w = (Inr u, w')"
  shows "\<exists>pool d v dict A F h s h' s'.
           Address_parse env (extraDistributionPool vd) = Inr pool
           \<and> getPoolExtraData env w pool = Inr d
           \<and> Address_parse env (vault vd) = Inr v
           \<and> prepareExtraRewards env (w @ GetPoolExtraData pool # WaitCall key # A)
                 v (toNano (1 / 10)) pool = Inr dict
           \<and> list_all (\<lambda>e. is_preparation e \<or> is_distribution e) A
           \<and> list_all (\<lambda>e. e = GovernorSend (tokenWalletAddress d)
                                 (toNano (1 / 10) + toNano (5 / 100))) F
           \<and> w' = w @ GetPoolExtraData pool # WaitCall key # A
                     @ PrepareExtraRewards v (toNano (1 / 10)) pool
                     # (if 0 < dict_size dict then [DistributeRewards dict pool] else [])
                     @ WaitReturn key h # ConsoleLog s # WaitCall key
                     # GovernorSend (tokenWalletAddress d) (toNano (1 / 10) + toNano (5 / 100))
                     # F @ [WaitReturn key h', ConsoleLog s']"
proof -
  from assms obtain pool where pool: "Address_parse env (extraDistributionPool vd) = Inr pool"
    by (cases "Address_parse env (extraDistributionPool vd)") (auto simp: processVault_def)
  from assms pool obtain d where d: "getPoolExtraData env w pool = Inr d"
    by (cases "getPoolExtraData env w pool") (auto simp: processVault_def)
  let ?w1 = "w @ [GetPoolExtraData pool]"
  let ?act1 = "distributionAction env vd (toNano (1 / 10)) pool"
  let ?to = "tokenWalletAddress d"
  let ?sum = "toNano (1 / 10) + toNano (5 / 100)"
  let ?act2 = "fundingAction env ?to ?sum"
  obtain r1 w2 where w1: "wait env key ?act1 ?w1 = (r1, w2)"
    by (cases "wait env key ?act1 ?w1")
  from assms pool d w1 obtain h where r1: "r1 = Inr h"
    by (cases r1) (auto simp: processVault_def Let_def)
  let ?s = "''Extra rewards distribution hash: '' @ h @ ''. Link:'' @ TONVIEWER_URL env
              @ ''/transaction/'' @ h"
  let ?w3 = "w2 @ [ConsoleLog ?s]"
  obtain r2 w4 where w3: "wait env key ?act2 ?w3 = (r2, w4)"
    by (cases "wait env key ?act2 ?w3")
  from assms pool d w1 r1 w3 obtain h' where r2: "r2 = Inr h'"
    by (cases r2) (auto simp: processVault_def Let_def)
  from assms pool d w1 r1 w3 r2 obtain s' where w': "w' = w4 @ [ConsoleLog s']"
    by (auto simp: processVault_def Let_def)
  from wait_returns [OF w1 [unfolded r1]] obtain u1 wa where
    a1: "attempt (retryBudget env) ?act1 (?w1 @ [WaitCall key]) = (Inr u1, wa)"
    and w2: "w2 = wa @ [WaitReturn key h]"
    by blast
  from attempt_distribution_success [OF a1] obtain A v dict where
    A: "list_all (\<lambda>e. is_preparation e \<or> is_distribution e) A"
    and v: "Address_parse env (vault vd) = Inr v"
    and p: "prepareExtraRewards env ((?w1 @ [WaitCall key]) @ A) v (toNano (1 / 10)) pool = Inr dict"
    and wa: "wa = (?w1 @ [WaitCall key]) @ A @ PrepareExtraRewards v (toNano (1 / 10)) pool
                     # (if 0 < dict_size dict then [DistributeRewards dict pool] else [])"
    by blast
  from wait_returns [OF w3 [unfolded r2]] obtain u2 wb where
    a2: "attempt (retryBudget env) ?act2 (?w3 @ [WaitCall key]) = (Inr u2, wb)"
    and w4: "w4 = wb @ [WaitReturn key h']"
    by blast
  from attempt_funding_success [OF a2] obtain F where
    F: "list_all (\<lambda>e. e = GovernorSend ?to ?sum) F"
    and wb: "wb = (?w3 @ [WaitCall key]) @ GovernorSend ?to ?sum # F"
    by blast
  have "w' = w @ GetPoolExtraData pool # WaitCall key # A
                     @ PrepareExtraRewards v (toNano (1 / 10)) pool
                     # (if 0 < dict_size dict then [DistributeRewards dict pool] else [])
                     @ WaitReturn key h # ConsoleLog ?s # WaitCall key
                     # GovernorSend ?to ?sum # F @ [WaitReturn key h', ConsoleLog s']"
    unfolding w' w4 wb w2 wa by simp
  moreover from p have "prepareExtraRewards env (w @ GetPoolExtraData pool # WaitCall key # A)
                 v (toNano (1 / 10)) pool = Inr dict"
    by simp
  ultimately show ?thesis
    using pool d v A F by blast
qed

subsection \<open>A failing vault\<close>

text \<open>
  C3, as amended. The configured vaults are processed in order, and the loop does not catch:
  if the vaults before one are processed and the processing of that one fails, the run
  rejects with its error in the world that the failure left, so no later vault is
  processed.
\<close>

theorem run_aborts_at_first_failure:
  assumes "vaultGovernorWallet env = Inr wallet"
    and "addresses_vaults env = pre @ vaultData # post"
    and "forEachVault env (Address_toString env wallet) pre w = (Inr (), w1)"
    and "processVault env (Address_toString env wallet) vaultData w1 = (Inl e, w2)"
  shows "vaultExtraRewardsDistribution env w = (Inl e, w2)"
  using assms by (simp add: vaultExtraRewardsDistribution_def forEachVault_append)

text \<open>
  Two configured vaults, the getter of the first vault's pool rejecting.
\<close>

theorem run_aborts_at_first_failure_witness:
  "vaultGovernorWallet example_env_failing = Inr example_governor
   \<and> addresses_vaults example_env_failing = [] @ example_vaultData_1 # [example_vaultData_2]
   \<and> forEachVault example_env_failing (Address_toString example_env_failing example_governor) [] []
       = (Inr (), [])
   \<and> processVault example_env_failing (Address_toString example_env_failing example_governor)
         example_vaultData_1 []
       = (Inl DecodingError, [GetPoolExtraData example_pool_1])
   \<and> vaultExtraRewardsDistribution example_env_failing []
       = (Inl DecodingError, [GetPoolExtraData example_pool_1])"
proof -
  have 1: "vaultGovernorWallet example_env_failing = Inr example_governor"
    by (simp add: example_env_failing_def example_env_def)
  have 2: "addresses_vaults example_env_failing = [] @ example_vaultData_1 # [example_vaultData_2]"
    by (simp add: example_env_failing_def example_env_def)
  have 3: "forEachVault example_env_failing
             (Address_toString example_env_failing example_governor) [] [] = (Inr (), [])"
    by simp
  have 4: "processVault example_env_failing (Address_toString example_env_failing example_governor)
             example_vaultData_1 []
           = (Inl DecodingError, [GetPoolExtraData example_pool_1])"
    by code_simp
  from run_aborts_at_first_failure [OF 1 2 3 4] 1 2 3 4 show ?thesis
    by simp
qed

text \<open>
  C3 as stated fails: in that world the first vault fails, the second would be processed
  to its end if it were reached, and the run ends after the first call of the first
  vault, with one segment for two configured vaults.
\<close>

theorem later_vault_not_processed_counterexample:
  "addresses_vaults example_env_failing = [example_vaultData_1, example_vaultData_2]
   \<and> fst (processVault example_env_failing ''governor'' example_vaultData_1 [])
       = Inl DecodingError
   \<and> fst (processVault example_env_failing ''governor'' example_vaultData_2 []) = Inr ()
   \<and> vaultExtraRewardsDistribution example_env_failing []
       = (Inl DecodingError, [GetPoolExtraData example_pool_1])
   \<and> vault_segments example_env_failing ''governor'' (addresses_vaults example_env_failing) []
       = [[GetPoolExtraData example_pool_1]]"
  by code_simp

subsection \<open>Order and wrapping\<close>

lemma dbf_skip:
  "list_all (\<lambda>e. \<not> is_funding e) xs \<Longrightarrow>
   distribution_before_funding (xs @ ys) = distribution_before_funding ys"
  by (induction xs) auto

lemma dbf_funding:
  "list_all (\<lambda>e. \<not> is_distribution e) ys \<Longrightarrow> distribution_before_funding ys"
  by (induction ys) auto

lemma wrapped_inside:
  "list_all (\<lambda>e. is_preparation e \<or> is_distribution e \<or> is_funding e) xs \<Longrightarrow>
   submissions_wrapped key (Some key) (xs @ ys) = submissions_wrapped key (Some key) ys"
proof (induction xs)
  case Nil
  then show ?case by simp
next
  case (Cons x xs)
  then show ?case by (cases x) auto
qed

lemma prep_dist_not_funding:
  "list_all (\<lambda>e. is_preparation e \<or> is_distribution e) A \<Longrightarrow> list_all (\<lambda>e. \<not> is_funding e) A"
proof (induction A)
  case Nil
  then show ?case by simp
next
  case (Cons x xs)
  then show ?case by (cases x) auto
qed

lemma prep_dist_inside:
  "list_all (\<lambda>e. is_preparation e \<or> is_distribution e) A \<Longrightarrow>
   list_all (\<lambda>e. is_preparation e \<or> is_distribution e \<or> is_funding e) A"
  by (induction A) auto

lemma funding_inside:
  "list_all (\<lambda>e. e = GovernorSend to v) F \<Longrightarrow>
   list_all (\<lambda>e. is_preparation e \<or> is_distribution e \<or> is_funding e) F
   \<and> list_all (\<lambda>e. \<not> is_distribution e) F"
  by (induction F) auto

lemma segment_ordered:
  "distribution_before_funding (drop (length w) (snd (processVault env address vd w)))"
proof -
  have skip2: "\<And>p k ys. distribution_before_funding (GetPoolExtraData p # WaitCall k # ys)
                 = distribution_before_funding ys"
    by simp
  have skip3: "\<And>h s k ys. distribution_before_funding
                 (WaitReturn k h # ConsoleLog s # WaitCall k # ys)
                 = distribution_before_funding ys"
    by simp
  have A: "\<And>A ys. list_all (\<lambda>e. is_preparation e \<or> is_distribution e) A \<Longrightarrow>
      distribution_before_funding (A @ ys) = distribution_before_funding ys"
    by (rule dbf_skip [OF prep_dist_not_funding])
  have A': "\<And>A. list_all (\<lambda>e. is_preparation e \<or> is_distribution e) A \<Longrightarrow>
      distribution_before_funding A"
    using A [of _ "[]"] by simp
  have F: "\<And>F to v. list_all (\<lambda>e. e = GovernorSend to v) F \<Longrightarrow>
      distribution_before_funding F"
    by (rule dbf_funding) (simp add: funding_inside)
  have F': "\<And>F to v k h s. list_all (\<lambda>e. e = GovernorSend to v) F \<Longrightarrow>
      distribution_before_funding (F @ [WaitReturn k h, ConsoleLog s])"
    by (rule dbf_funding) (simp add: funding_inside)
  from processVault_shape [of env address vd w] show ?thesis
    by (elim disjE exE conjE) (simp_all add: skip2 skip3 A A' F F')
qed

lemma segment_wrapped:
  "submissions_wrapped address None (drop (length w) (snd (processVault env address vd w)))"
proof -
  have a: "\<And>A ys. list_all (\<lambda>e. is_preparation e \<or> is_distribution e) A \<Longrightarrow>
      submissions_wrapped address (Some address) (A @ ys)
        = submissions_wrapped address (Some address) ys"
    by (rule wrapped_inside [OF prep_dist_inside])
  have a': "\<And>A. list_all (\<lambda>e. is_preparation e \<or> is_distribution e) A \<Longrightarrow>
      submissions_wrapped address (Some address) A"
    using a [of _ "[]"] by simp
  have f: "\<And>F ys to v. list_all (\<lambda>e. e = GovernorSend to v) F \<Longrightarrow>
      submissions_wrapped address (Some address) (F @ ys)
        = submissions_wrapped address (Some address) ys"
    using funding_inside wrapped_inside by blast
  have f': "\<And>F to v. list_all (\<lambda>e. e = GovernorSend to v) F \<Longrightarrow>
      submissions_wrapped address (Some address) F"
    using f [of _ _ _ "[]"] by simp
  from processVault_shape [of env address vd w] show ?thesis
    by (elim disjE exE conjE) (auto simp: a a' f f')
qed

lemma forEachVault_segments:
  "snd (forEachVault env address vds w) = w @ concat (vault_segments env address vds w)
   \<and> list_all (\<lambda>evs. distribution_before_funding evs \<and> submissions_wrapped address None evs)
        (vault_segments env address vds w)"
proof (induction vds arbitrary: w)
  case Nil
  then show ?case by simp
next
  case (Cons vd vds)
  obtain r w' where p: "processVault env address vd w = (r, w')"
    by (cases "processVault env address vd w")
  from processVault_extends [of env address vd w] p obtain evs where w': "w' = w @ evs"
    by auto
  from segment_ordered [of w env address vd] segment_wrapped [of address w env vd] p w'
  have ok: "distribution_before_funding evs \<and> submissions_wrapped address None evs"
    by simp
  show ?case
  proof (cases r)
    case (Inl e)
    with p w' ok show ?thesis by simp
  next
    case (Inr u)
    with p w' ok Cons.IH [of w'] show ?thesis by simp
  qed
qed

text \<open>
  C7. For every vault processed in one run of the orchestrator, the distribution
  submission happens before the funding transfer, and both submissions are made inside a
  call of the wait primitive keyed on the same governor address string. The events of a
  run are the events of the vaults it reaches, one segment after the other; in each
  segment no distribution follows a funding transfer and every submission lies between a
  call of \<open>wait\<close> with the governor's address string and its return. The events of a
  vault processed to its end are, in this order: the pool getter; the first call of
  \<open>wait\<close> with the governor's address string, the attempts it retried, the preparation of
  the rewards and, when the prepared map is not empty, its distribution, and the return
  of that call; the log line; the second call of \<open>wait\<close> with the same string, the
  governor's transfer, as often as it was tried, and the return of that call; the
  log line.
\<close>

theorem distribution_before_funding_under_wait:
  assumes "vaultGovernorWallet env = Inr wallet"
  shows "snd (vaultExtraRewardsDistribution env w)
           = w @ concat (vault_segments env (Address_toString env wallet) (addresses_vaults env) w)
         \<and> list_all (\<lambda>evs. distribution_before_funding evs
                           \<and> submissions_wrapped (Address_toString env wallet) None evs)
             (vault_segments env (Address_toString env wallet) (addresses_vaults env) w)
         \<and> (\<forall>pre vaultData post w1 w2.
               addresses_vaults env = pre @ vaultData # post
               \<and> forEachVault env (Address_toString env wallet) pre w = (Inr (), w1)
               \<and> processVault env (Address_toString env wallet) vaultData w1 = (Inr (), w2) \<longrightarrow>
               (\<exists>pool d v dict A F h s h' s'.
                  Address_parse env (extraDistributionPool vaultData) = Inr pool
                  \<and> getPoolExtraData env w1 pool = Inr d
                  \<and> Address_parse env (vault vaultData) = Inr v
                  \<and> prepareExtraRewards env
                        (w1 @ GetPoolExtraData pool # WaitCall (Address_toString env wallet) # A)
                        v (toNano (1 / 10)) pool = Inr dict
                  \<and> list_all (\<lambda>e. is_preparation e \<or> is_distribution e) A
                  \<and> list_all (\<lambda>e. e = GovernorSend (tokenWalletAddress d)
                                        (toNano (1 / 10) + toNano (5 / 100))) F
                  \<and> w2 = w1 @ GetPoolExtraData pool # WaitCall (Address_toString env wallet) # A
                            @ PrepareExtraRewards v (toNano (1 / 10)) pool
                            # (if 0 < dict_size dict then [DistributeRewards dict pool] else [])
                            @ WaitReturn (Address_toString env wallet) h # ConsoleLog s
                            # WaitCall (Address_toString env wallet)
                            # GovernorSend (tokenWalletAddress d)
                                (toNano (1 / 10) + toNano (5 / 100))
                            # F @ [WaitReturn (Address_toString env wallet) h', ConsoleLog s']))"
proof (intro conjI allI impI)
  show "snd (vaultExtraRewardsDistribution env w)
           = w @ concat (vault_segments env (Address_toString env wallet) (addresses_vaults env) w)"
    using assms forEachVault_segments [of env "Address_toString env wallet" "addresses_vaults env" w]
    by (simp add: vaultExtraRewardsDistribution_def)
  show "list_all (\<lambda>evs. distribution_before_funding evs
                           \<and> submissions_wrapped (Address_toString env wallet) None evs)
             (vault_segments env (Address_toString env wallet) (addresses_vaults env) w)"
    using forEachVault_segments [of env "Address_toString env wallet" "addresses_vaults env" w]
    by simp
next
  fix pre vaultData post w1 w2
  assume "addresses_vaults env = pre @ vaultData # post
               \<and> forEachVault env (Address_toString env wallet) pre w = (Inr (), w1)
               \<and> processVault env (Address_toString env wallet) vaultData w1 = (Inr (), w2)"
  then have "processVault env (Address_toString env wallet) vaultData w1 = (Inr (), w2)"
    by simp
  from processVault_completed_shape [OF this]
  show "\<exists>pool d v dict A F h s h' s'.
                  Address_parse env (extraDistributionPool vaultData) = Inr pool
                  \<and> getPoolExtraData env w1 pool = Inr d
                  \<and> Address_parse env (vault vaultData) = Inr v
                  \<and> prepareExtraRewards env
                        (w1 @ GetPoolExtraData pool # WaitCall (Address_toString env wallet) # A)
                        v (toNano (1 / 10)) pool = Inr dict
                  \<and> list_all (\<lambda>e. is_preparation e \<or> is_distribution e) A
                  \<and> list_all (\<lambda>e. e = GovernorSend (tokenWalletAddress d)
                                        (toNano (1 / 10) + toNano (5 / 100))) F
                  \<and> w2 = w1 @ GetPoolExtraData pool # WaitCall (Address_toString env wallet) # A
                            @ PrepareExtraRewards v (toNano (1 / 10)) pool
                            # (if 0 < dict_size dict then [DistributeRewards dict pool] else [])
                            @ WaitReturn (Address_toString env wallet) h # ConsoleLog s
                            # WaitCall (Address_toString env wallet)
                            # GovernorSend (tokenWalletAddress d)
                                (toNano (1 / 10) + toNano (5 / 100))
                            # F @ [WaitReturn (Address_toString env wallet) h', ConsoleLog s']" .
qed

text \<open>
  A run over two vaults in a world where every collaborator answers; the first vault has
  a share-holder, and its events include the distribution before the funding transfer.
\<close>

theorem distribution_before_funding_under_wait_witness:
  "vaultGovernorWallet example_env = Inr example_governor
   \<and> Address_toString example_env example_governor = ''governor''
   \<and> snd (vaultExtraRewardsDistribution example_env [])
       = [] @ concat (vault_segments example_env ''governor'' (addresses_vaults example_env) [])
   \<and> list_all (\<lambda>evs. distribution_before_funding evs
                     \<and> submissions_wrapped ''governor'' None evs)
         (vault_segments example_env ''governor'' (addresses_vaults example_env) [])
   \<and> length (vault_segments example_env ''governor'' (addresses_vaults example_env) []) = 2
   \<and> addresses_vaults example_env = [] @ example_vaultData_1 # [example_vaultData_2]
   \<and> forEachVault example_env ''governor'' [] [] = (Inr (), [])
   \<and> processVault example_env ''governor'' example_vaultData_1 [] = (Inr (), example_segment_1)
   \<and> (\<exists>pool d v dict A F h s h' s'.
         Address_parse example_env (extraDistributionPool example_vaultData_1) = Inr pool
         \<and> getPoolExtraData example_env [] pool = Inr d
         \<and> Address_parse example_env (vault example_vaultData_1) = Inr v
         \<and> prepareExtraRewards example_env ([] @ GetPoolExtraData pool # WaitCall ''governor'' # A)
               v (toNano (1 / 10)) pool = Inr dict
         \<and> list_all (\<lambda>e. is_preparation e \<or> is_distribution e) A
         \<and> list_all (\<lambda>e. e = GovernorSend (tokenWalletAddress d)
                               (toNano (1 / 10) + toNano (5 / 100))) F
         \<and> example_segment_1
             = [] @ GetPoolExtraData pool # WaitCall ''governor'' # A
                 @ PrepareExtraRewards v (toNano (1 / 10)) pool
                 # (if 0 < dict_size dict then [DistributeRewards dict pool] else [])
                 @ WaitReturn ''governor'' h # ConsoleLog s # WaitCall ''governor''
                 # GovernorSend (tokenWalletAddress d) (toNano (1 / 10) + toNano (5 / 100))
                 # F @ [WaitReturn ''governor'' h', ConsoleLog s'])"
proof -
  have 1: "vaultGovernorWallet example_env = Inr example_governor"
    by (simp add: example_env_def)
  have 2: "Address_toString example_env example_governor = ''governor''"
    by (simp add: example_env_def)
  have 3: "length (vault_segments example_env ''governor'' (addresses_vaults example_env) []) = 2"
    by code_simp
  have 4: "addresses_vaults example_env = [] @ example_vaultData_1 # [example_vaultData_2]"
    by (simp add: example_env_def)
  have 5: "forEachVault example_env ''governor'' [] [] = (Inr (), [])"
    by simp
  have 6: "processVault example_env ''governor'' example_vaultData_1 []
             = (Inr (), example_segment_1)"
    by code_simp
  note t = distribution_before_funding_under_wait [OF 1, of "[]", unfolded 2]
  from t have a: "snd (vaultExtraRewardsDistribution example_env [])
       = [] @ concat (vault_segments example_env ''governor'' (addresses_vaults example_env) [])"
    by (rule conjunct1)
  from t have b: "list_all (\<lambda>evs. distribution_before_funding evs
                     \<and> submissions_wrapped ''governor'' None evs)
         (vault_segments example_env ''governor'' (addresses_vaults example_env) [])"
    by (elim conjE)
  from t have c: "\<forall>pre vaultData post w1 w2.
               addresses_vaults example_env = pre @ vaultData # post
               \<and> forEachVault example_env ''governor'' pre [] = (Inr (), w1)
               \<and> processVault example_env ''governor'' vaultData w1 = (Inr (), w2) \<longrightarrow>
               (\<exists>pool d v dict A F h s h' s'.
                  Address_parse example_env (extraDistributionPool vaultData) = Inr pool
                  \<and> getPoolExtraData example_env w1 pool = Inr d
                  \<and> Address_parse example_env (vault vaultData) = Inr v
                  \<and> prepareExtraRewards example_env
                        (w1 @ GetPoolExtraData pool # WaitCall ''governor'' # A)
                        v (toNano (1 / 10)) pool = Inr dict
                  \<and> list_all (\<lambda>e. is_preparation e \<or> is_distribution e) A
                  \<and> list_all (\<lambda>e. e = GovernorSend (tokenWalletAddress d)
                                        (toNano (1 / 10) + toNano (5 / 100))) F
                  \<and> w2 = w1 @ GetPoolExtraData pool # WaitCall ''governor'' # A
                            @ PrepareExtraRewards v (toNano (1 / 10)) pool
                            # (if 0 < dict_size dict then [DistributeRewards dict pool] else [])
                            @ WaitReturn ''governor'' h # ConsoleLog s
                            # WaitCall ''governor''
                            # GovernorSend (tokenWalletAddress d)
                                (toNano (1 / 10) + toNano (5 / 100))
                            # F @ [WaitReturn ''governor'' h', ConsoleLog s'])"
    by (elim conjE)
  from c [rule_format, of "[]" example_vaultData_1 "[example_vaultData_2]" "[]" example_segment_1]
    4 5 6
  have d: "\<exists>pool d v dict A F h s h' s'.
         Address_parse example_env (extraDistributionPool example_vaultData_1) = Inr pool
         \<and> getPoolExtraData example_env [] pool = Inr d
         \<and> Address_parse example_env (vault example_vaultData_1) = Inr v
         \<and> prepareExtraRewards example_env ([] @ GetPoolExtraData pool # WaitCall ''governor'' # A)
               v (toNano (1 / 10)) pool = Inr dict
         \<and> list_all (\<lambda>e. is_preparation e \<or> is_distribution e) A
         \<and> list_all (\<lambda>e. e = GovernorSend (tokenWalletAddress d)
                               (toNano (1 / 10) + toNano (5 / 100))) F
         \<and> example_segment_1
             = [] @ GetPoolExtraData pool # WaitCall ''governor'' # A
                 @ PrepareExtraRewards v (toNano (1 / 10)) pool
                 # (if 0 < dict_size dict then [DistributeRewards dict pool] else [])
                 @ WaitReturn ''governor'' h # ConsoleLog s # WaitCall ''governor''
                 # GovernorSend (tokenWalletAddress d) (toNano (1 / 10) + toNano (5 / 100))
                 # F @ [WaitReturn ''governor'' h', ConsoleLog s']"
    by blast
  from 1 2 a b 3 4 5 6 d show ?thesis
    by (intro conjI)
qed

subsection \<open>The funding transfer\<close>

text \<open>
  C8. For every vault, the funding transfer sends exactly the reward budget of the period
  plus the fixed fee margin, \<open>toNano(0.1) + toNano(0.05) = 150000000\<close> nano, from the governor
  to the token wallet address read from the extra-reward state of the vault's pool: every
  \<open>governor.send\<close> of the vault is that transfer, and a vault processed to its end has
  made it.
\<close>

theorem funding_transfer_amount_and_target:
  assumes pool: "Address_parse env (extraDistributionPool vaultData) = Inr distributionPool"
    and d: "getPoolExtraData env w distributionPool = Inr distributionPoolData"
  shows "(\<forall>e \<in> set (drop (length w) (snd (processVault env address vaultData w))).
            is_funding e \<longrightarrow>
              e = GovernorSend (tokenWalletAddress distributionPoolData) 150000000)
         \<and> (fst (processVault env address vaultData w) = Inr () \<longrightarrow>
              GovernorSend (tokenWalletAddress distributionPoolData) 150000000
                \<in> set (drop (length w) (snd (processVault env address vaultData w))))
         \<and> toNano (1 / 10) + toNano (5 / 100) = 150000000"
proof (intro conjI ballI impI)
  show amount: "toNano (1 / 10) + toNano (5 / 100) = 150000000"
    by (simp add: toNano_def)
  show "GovernorSend (tokenWalletAddress distributionPoolData) 150000000
          \<in> set (drop (length w) (snd (processVault env address vaultData w)))"
    if "fst (processVault env address vaultData w) = Inr ()"
  proof -
    from that have "processVault env address vaultData w
                      = (Inr (), snd (processVault env address vaultData w))"
      by (cases "processVault env address vaultData w") simp
    from processVault_completes [OF this pool d] amount show ?thesis
      by simp
  qed
  show "e = GovernorSend (tokenWalletAddress distributionPoolData) 150000000"
    if "e \<in> set (drop (length w) (snd (processVault env address vaultData w)))"
      and "is_funding e" for e
  proof -
    have nf: "\<not> (is_preparation e \<or> is_distribution e)"
      using that(2) by (cases e) auto
    from processVault_shape [of env address vaultData w] that pool d amount nf show ?thesis
      by (elim disjE exE conjE) (auto simp: list_all_iff)
  qed
qed

text \<open>
  The first vault of the example world.
\<close>

theorem funding_transfer_amount_and_target_witness:
  "Address_parse example_env (extraDistributionPool example_vaultData_1) = Inr example_pool_1
   \<and> getPoolExtraData example_env [] example_pool_1
       = Inr \<lparr>tokenWalletAddress = example_token_wallet\<rparr>
   \<and> fst (processVault example_env ''governor'' example_vaultData_1 []) = Inr ()
   \<and> list_all (\<lambda>e. is_funding e = (e = GovernorSend example_token_wallet 150000000))
        (drop (length ([] :: world))
           (snd (processVault example_env ''governor'' example_vaultData_1 [])))
   \<and> GovernorSend example_token_wallet 150000000
       \<in> set (drop (length ([] :: world))
                (snd (processVault example_env ''governor'' example_vaultData_1 [])))"
proof -
  have 1: "Address_parse example_env (extraDistributionPool example_vaultData_1)
             = Inr example_pool_1"
    by (simp add: example_env_def example_vaultData_1_def)
  have 2: "getPoolExtraData example_env [] example_pool_1
             = Inr \<lparr>tokenWalletAddress = example_token_wallet\<rparr>"
    by (simp add: example_env_def)
  have 3: "fst (processVault example_env ''governor'' example_vaultData_1 []) = Inr ()"
    by code_simp
  from funding_transfer_amount_and_target [OF 1 2, of "''governor''"] 1 2 3 show ?thesis
    by (auto simp: list_all_iff)
qed

subsection \<open>A vault without share-holders\<close>




end
